theory Spec2Isabelle
  imports Main
begin

section \<open>JavaScript values of the instruction processor\<close>

text \<open>
  The processor renders every amount with \<^verbatim>\<open>Number.prototype.toString\<close>, which prints
  the shortest decimal that identifies the double. A number that the decoder supplies
  (\<^verbatim>\<open>uiAmount\<close>) is given by that decimal: \<open>Dec m e\<close> stands for \<open>m * 10^e\<close>.
\<close>

datatype number = NaN | Dec nat int

datatype error = TypeError

function strip_zeros :: "nat \<Rightarrow> int \<Rightarrow> nat \<times> int" where
  "strip_zeros m e =
     (if m = 0 then (0, 0)
      else if m mod 10 = 0 then strip_zeros (m div 10) (e + 1)
      else (m, e))"
  by pat_completeness auto
termination
  by (relation "measure fst") auto

declare strip_zeros.simps [simp del]

definition digit_char :: "nat \<Rightarrow> char" where
  "digit_char d = ''0123456789'' ! d"

function digits :: "nat \<Rightarrow> string" where
  "digits n = (if n < 10 then [digit_char n] else digits (n div 10) @ [digit_char (n mod 10)])"
  by pat_completeness auto
termination
  by (relation "measure id") auto

declare digits.simps [simp del]

text \<open>
  \<^verbatim>\<open>Number::toString\<close> of ECMAScript, radix 10: with \<open>s\<close> the digits (\<open>k\<close> of them, no
  trailing zero) and \<open>n\<close> such that the value is \<open>s * 10^(n - k)\<close>, the number is printed
  in positional notation when \<open>-5 \<le> n \<le> 21\<close> and in exponential notation otherwise.
\<close>

definition Number_toString :: "number \<Rightarrow> string" where
  "Number_toString x =
     (case x of
        NaN \<Rightarrow> ''NaN''
      | Dec m e \<Rightarrow>
          if m = 0 then ''0''
          else
            let (s, e') = strip_zeros m e;
                ds = digits s;
                k = int (length ds);
                n = e' + k
            in if - 5 \<le> n \<and> n \<le> 21 then
                 (if k \<le> n then ds @ replicate (nat (n - k)) (CHR ''0'')
                  else if 0 < n then take (nat n) ds @ ''.'' @ drop (nat n) ds
                  else ''0.'' @ replicate (nat (- n)) (CHR ''0'') @ ds)
               else
                 let ex = n - 1;
                     sgn = (if ex < 0 then ''-'' else ''+'');
                     es = digits (nat (abs ex))
                 in if k = 1 then ds @ ''e'' @ sgn @ es
                    else take 1 ds @ ''.'' @ drop 1 ds @ ''e'' @ sgn @ es)"

text \<open>
  \<^verbatim>\<open>(x / Math.pow(10, d)).toString()\<close> and \<^verbatim>\<open>(x / 1e9).toString()\<close> for a raw integer amount
  \<open>x\<close>. The division is one of doubles. For an amount below \<open>10^15\<close> and a power of ten up
  to \<open>10^22\<close> both operands are exact, the quotient is the double nearest to the decimal
  \<open>x * 10^-d\<close>, and, that decimal having at most 15 significant digits, it is the shortest
  one that identifies the double: the digits printed are those of the exact quotient.
  Outside this range the double is rounded and its digits are not computed here: the
  text is left as \<open>QuotientDigits x d\<close>. An absent amount divides to \<^verbatim>\<open>NaN\<close>, and zero
  divided by anything prints as \<^verbatim>\<open>0\<close>.
\<close>

datatype printed = Text string | QuotientDigits nat nat

definition quotientText :: "nat option \<Rightarrow> nat \<Rightarrow> printed" where
  "quotientText x d =
     (case x of
        None \<Rightarrow> Text ''NaN''
      | Some a \<Rightarrow>
          if a = 0 then Text ''0''
          else if a < 10 ^ 15 \<and> d \<le> 22 then Text (Number_toString (Dec a (- int d)))
          else QuotientDigits a d)"

text \<open>\<^verbatim>\<open>x === 1\<close> and the truthiness of a number.\<close>

definition is_one :: "number \<Rightarrow> bool" where
  "is_one x = (case x of NaN \<Rightarrow> False | Dec m e \<Rightarrow> strip_zeros m e = (1, 0))"

definition truthy_num :: "number \<Rightarrow> bool" where
  "truthy_num x = (case x of NaN \<Rightarrow> False | Dec m e \<Rightarrow> m \<noteq> 0)"

text \<open>
  A string-valued field that may be absent is a \<open>string option\<close>; \<^verbatim>\<open>a || b\<close> takes \<open>b\<close>
  when \<open>a\<close> is absent or the empty string. A template literal prints an absent value
  as \<^verbatim>\<open>undefined\<close>.
\<close>

definition js_or :: "string option \<Rightarrow> string option \<Rightarrow> string option" where
  "js_or a b = (case a of None \<Rightarrow> b | Some s \<Rightarrow> if s = [] then b else Some s)"

definition template :: "string option \<Rightarrow> string" where
  "template a = (case a of None \<Rightarrow> ''undefined'' | Some s \<Rightarrow> s)"

text \<open>
  \<^verbatim>\<open>table[key]\<close> on an object literal finds the table's own property of that name, and
  otherwise the member of \<^verbatim>\<open>Object.prototype\<close> of that name: a function (for
  \<^verbatim>\<open>__proto__\<close>, the prototype object), which is truthy and is not a string. A value read
  from a table is therefore a string or such a member.
\<close>

datatype jsval = Str string | Member string

definition objectPrototypeMembers :: "string list" where
  "objectPrototypeMembers =
     [''constructor'', ''hasOwnProperty'', ''isPrototypeOf'', ''propertyIsEnumerable'',
      ''toLocaleString'', ''toString'', ''valueOf'', ''__proto__'',
      ''__defineGetter__'', ''__defineSetter__'', ''__lookupGetter__'', ''__lookupSetter__'']"

definition js_get :: "(string \<times> string) list \<Rightarrow> string option \<Rightarrow> jsval option" where
  "js_get tbl key =
     (case map_of tbl (template key) of
        Some label \<Rightarrow> Some (Str label)
      | None \<Rightarrow>
          if template key \<in> set objectPrototypeMembers then Some (Member (template key))
          else None)"

text \<open>
  \<^verbatim>\<open>table[v]\<close> for a value \<open>v\<close> read before: a member used as a key is converted to its
  source text, which names no property.
\<close>

definition js_getv :: "(string \<times> string) list \<Rightarrow> jsval option \<Rightarrow> jsval option" where
  "js_getv tbl v =
     (case v of
        None \<Rightarrow> js_get tbl None
      | Some (Str s) \<Rightarrow> js_get tbl (Some s)
      | Some (Member m) \<Rightarrow> None)"

definition js_orv :: "jsval option \<Rightarrow> jsval option \<Rightarrow> jsval option" where
  "js_orv a b =
     (case a of
        None \<Rightarrow> b
      | Some (Str s) \<Rightarrow> if s = [] then b else a
      | Some (Member m) \<Rightarrow> a)"

section \<open>The decoded transaction\<close>

text \<open>
  \<^verbatim>\<open>programId\<close> and the account references are \<^verbatim>\<open>PublicKey\<close> objects (given by their
  base58 text) or any other value (given by what \<^verbatim>\<open>toString()\<close> returns).
\<close>

datatype address = PublicKey (address_string: string) | Plain (address_string: string)

record tokenAmount =
  ta_decimals :: "nat option"
  ta_uiAmount :: "number option"

text \<open>
  \<^verbatim>\<open>parsed.info\<close>: the fields the processor reads. \<open>i_amount\<close> and \<open>i_lamports\<close> are raw
  integer amounts (a digit string or a number; \<^verbatim>\<open>/\<close> coerces both to the same number).
\<close>

record info =
  i_mint :: "string option"
  i_token :: "string option"
  i_tokenAmount :: "tokenAmount option"
  i_amount :: "nat option"
  i_authority :: "string option"
  i_source :: "string option"
  i_destination :: "string option"
  i_from :: "string option"
  i_to :: "string option"
  i_lamports :: "nat option"

record parsed =
  p_type :: "string option"
  p_info :: "info option"

datatype instruction =
    ParsedInstruction (instructionProgramId: address) string parsed
  | PartiallyDecodedInstruction (instructionProgramId: address) "address list" string

record inner =
  inner_index :: nat
  inner_instructions :: "instruction list"

record meta =
  innerInstructions :: "inner list option"

record tx =
  tx_instructions :: "instruction list"
  tx_meta :: "meta option"

section \<open>The program registry\<close>

record program =
  prog_id :: "string option"
  prog_name :: string
  prog_instructions :: "(string \<times> string) list"

definition known :: "string \<Rightarrow> string \<Rightarrow> (string \<times> string) list \<Rightarrow> program" where
  "known i n tbl = \<lparr>prog_id = Some i, prog_name = n, prog_instructions = tbl\<rparr>"

definition KNOWN_PROGRAMS :: "program list" where
  "KNOWN_PROGRAMS =
   [known ''11111111111111111111111111111111'' ''System Program''
      [(''transfer'', ''Transfer SOL''),
       (''transferWithSeed'', ''Transfer SOL with Seed''),
       (''allocate'', ''Allocate Space''),
       (''allocateWithSeed'', ''Allocate Space with Seed''),
       (''assign'', ''Assign Account''),
       (''assignWithSeed'', ''Assign Account with Seed''),
       (''createAccount'', ''Create Account''),
       (''createAccountWithSeed'', ''Create Account with Seed''),
       (''advance_nonce_account'', ''Advance Nonce Account''),
       (''withdraw_nonce_account'', ''Withdraw from Nonce Account''),
       (''initialize_nonce_account'', ''Initialize Nonce Account''),
       (''authorize_nonce_account'', ''Authorize Nonce Account'')],
    known ''TokenkegQfeZyiNwAJbNbGKPFXCWuBvf9Ss623VQ5DA'' ''Token Program''
      [(''transfer'', ''Transfer Tokens''),
       (''transferChecked'', ''Transfer Tokens (Checked)''),
       (''mintTo'', ''Mint Tokens''),
       (''mintToChecked'', ''Mint Tokens (Checked)''),
       (''burn'', ''Burn Tokens''),
       (''burnChecked'', ''Burn Tokens (Checked)''),
       (''approve'', ''Approve Token Delegation''),
       (''revoke'', ''Revoke Token Delegation''),
       (''setAuthority'', ''Set Authority''),
       (''closeAccount'', ''Close Token Account''),
       (''freezeAccount'', ''Freeze Account''),
       (''thawAccount'', ''Thaw Account''),
       (''syncNative'', ''Sync Native''),
       (''initializeMint'', ''Initialize Mint''),
       (''initializeAccount'', ''Initialize Token Account'')],
    known ''ATokenGPvbdGVxr1b2hvZbsiqW5xWH25efTNsLJA8knL'' ''Associated Token Program''
      [(''create'', ''Create Associated Token Account''),
       (''createIdempotent'', ''Create Associated Token Account (Idempotent)''),
       (''recover'', ''Recover Nested Token Account'')],
    known ''metaqbxxUerdq28cj1RbAWkYQm3ybzjb6a8bt518x1s'' ''Token Metadata Program''
      [(''createMetadataAccount'', ''Create Metadata Account''),
       (''updateMetadataAccount'', ''Update Metadata Account''),
       (''createMasterEdition'', ''Create Master Edition''),
       (''verifyCollection'', ''Verify Collection''),
       (''setAndVerifyCollection'', ''Set and Verify Collection''),
       (''unverifyCollection'', ''Unverify Collection''),
       (''burnNft'', ''Burn NFT''),
       (''verifyCreator'', ''Verify Creator''),
       (''unverifyCreator'', ''Unverify Creator'')],
    known ''JUP4Fb2cqiRUcaTHdrPC8h2gNsA2ETXiPDD33WcGuJB'' ''Jupiter Aggregator v6''
      [(''default'', ''Swap Tokens'')],
    known ''675kPX9MHTjS2zt1qfr1NYHuzeLXfQM9H24wFSUt1Mp8'' ''Raydium Liquidity Pool V4''
      [(''default'', ''Swap Tokens'')],
    known ''whirLbMiicVdio4qvUfM5KAg6Ct8VwpYzGff3uctyCc'' ''Orca Whirlpool''
      [(''default'', ''Swap Tokens'')],
    known ''Stake11111111111111111111111111111111111111'' ''Stake Program''
      [(''initialize'', ''Initialize Stake Account''),
       (''delegate'', ''Delegate Stake''),
       (''withdraw'', ''Withdraw Stake''),
       (''deactivate'', ''Deactivate Stake''),
       (''split'', ''Split Stake''),
       (''merge'', ''Merge Stake''),
       (''authorizeWithSeed'', ''Authorize with Seed'')],
    known ''MarBmsSgKXdrN1egZf5sqe1TMai9K1rChYNDJgjq7aD'' ''Marinade.Finance''
      [(''default'', ''Stake SOL'')],
    known ''9xQeWvG816bUx9EPjHmaT23yvVM2ZWbrrpZb9PusVFin'' ''Serum DEX v3''
      [(''default'', ''DEX Operation'')],
    known ''ComputeBudget111111111111111111111111111111'' ''Compute Budget Program''
      [(''default'', ''Set Compute Unit Limit'')],
    known ''M2mx93ekt1fmXSVkTrUL9xVFHkmME8HTUi5Cyc5aF7K'' ''Magic Eden v2''
      [(''default'', ''Magic Eden Operation'')],
    known ''auth9SigNpDKz4sJJ1DfCTuZrZNSAgh9sFD3rboVmgg'' ''Token Auth Rules''
      [(''default'', ''Token Authorization Rules'')],
    known ''MemoSq4gqABAXKb96qnH8TysNcWxMyWCqXgDLGmfcHr'' ''Memo Program''
      [(''default'', ''Add Memo'')]]"

text \<open>\<^verbatim>\<open>new Map(pairs)\<close> keeps the last pair of a key, \<open>map_of\<close> the first.\<close>

definition PROGRAM_ID_MAP :: "string \<rightharpoonup> program" where
  "PROGRAM_ID_MAP = map_of (rev (map (\<lambda>p. (template (prog_id p), p)) KNOWN_PROGRAMS))"

text \<open>\<^verbatim>\<open>getProgramInfo\<close> (part\_001, lines 260 to 273); an unknown identifier gets a descriptor made on the spot.\<close>

definition getProgramInfo :: "address \<Rightarrow> program" where
  "getProgramInfo programId =
     (let programAddress = address_string programId
      in case PROGRAM_ID_MAP programAddress of
           Some p \<Rightarrow> p
         | None \<Rightarrow> \<lparr>prog_id = None,
                     prog_name = ''Unknown Program ('' @ programAddress @ '')'',
                     prog_instructions = [(''default'', ''Unknown Instruction'')]\<rparr>)"


section \<open>The token metadata manager\<close>

text \<open>
  What \<^verbatim>\<open>getMintInfo\<close> returns on success (the \<^verbatim>\<open>parsed\<close> object of the mint account)
  and what \<^verbatim>\<open>getMetaplexMetadata\<close> returns on success (the seven fields that
  \<^verbatim>\<open>getTokenMetadata\<close> copies, kept together).
\<close>

record mintInfo =
  mi_decimals :: "nat option"
  mi_supply :: "string option"
  mi_isInitialized :: "bool option"

record metaplexData =
  mp_name :: string
  mp_symbol :: string
  mp_uri :: string
  mp_sellerFeeBasisPoints :: nat
  mp_creators :: "string list option"
  mp_collection :: "string option"
  mp_uses :: "string option"

record metadata =
  md_address :: "string option"
  md_type :: string
  md_timestamp :: "int option"
  md_decimals :: "nat option"
  md_supply :: "string option"
  md_isInitialized :: "bool option"
  md_metaplex :: "metaplexData option"
  md_isNFT :: "bool option"
  md_error :: "string option"

text \<open>
  The connection and the clock are the environment: \<open>clock n\<close> is the value of the
  \<open>n\<close>-th call of \<^verbatim>\<open>Date.now()\<close>, \<open>mintRpc n a\<close> what the \<open>n\<close>-th call of
  \<^verbatim>\<open>getMintInfo\<close> finds for address \<open>a\<close> (\<open>None\<close> when its \<^verbatim>\<open>try\<close> block throws),
  \<open>metaplexRpc\<close> likewise for \<^verbatim>\<open>getMetaplexMetadata\<close>, and \<open>bs58decode\<close> is
  \<^verbatim>\<open>bs58.decode(data).toString('utf8')\<close> (\<open>None\<close> when it throws). The state is the
  cache of the singleton and the number of calls made so far.
\<close>

record env =
  clock :: "nat \<Rightarrow> int"
  mintRpc :: "nat \<Rightarrow> string \<Rightarrow> mintInfo option"
  metaplexRpc :: "nat \<Rightarrow> string \<Rightarrow> metaplexData option"
  bs58decode :: "string \<Rightarrow> string option"

record world =
  metadataCache :: "string \<rightharpoonup> metadata"
  clockReads :: nat
  mintInfoCalls :: nat
  metaplexCalls :: nat

definition Date_now :: "env \<Rightarrow> world \<Rightarrow> int \<times> world" where
  "Date_now en w = (clock en (clockReads w), w\<lparr>clockReads := Suc (clockReads w)\<rparr>)"

text \<open>\<^verbatim>\<open>new PublicKey(undefined)\<close> throws inside the \<^verbatim>\<open>try\<close> block.\<close>

definition getMintInfo :: "env \<Rightarrow> string option \<Rightarrow> world \<Rightarrow> mintInfo option \<times> world" where
  "getMintInfo en mintAddress w =
     ((case mintAddress of None \<Rightarrow> None | Some a \<Rightarrow> mintRpc en (mintInfoCalls w) a),
      w\<lparr>mintInfoCalls := Suc (mintInfoCalls w)\<rparr>)"

definition getMetaplexMetadata ::
  "env \<Rightarrow> string option \<Rightarrow> world \<Rightarrow> metaplexData option \<times> world" where
  "getMetaplexMetadata en mintAddress w =
     ((case mintAddress of None \<Rightarrow> None | Some a \<Rightarrow> metaplexRpc en (metaplexCalls w) a),
      w\<lparr>metaplexCalls := Suc (metaplexCalls w)\<rparr>)"

definition cacheKey :: "string option \<Rightarrow> string \<Rightarrow> string" where
  "cacheKey mintAddress tokenType = template mintAddress @ ''-'' @ tokenType"

text \<open>
  The cache check of \<^verbatim>\<open>getTokenMetadata\<close>: \<^verbatim>\<open>Date.now()\<close> is read only when an entry
  exists, and an entry without a timestamp compares as \<^verbatim>\<open>NaN < 3600000\<close>, false.
\<close>

definition cacheLookup :: "env \<Rightarrow> string \<Rightarrow> world \<Rightarrow> metadata option \<times> world" where
  "cacheLookup en key w =
     (case metadataCache w key of
        None \<Rightarrow> (None, w)
      | Some cachedMetadata \<Rightarrow>
          (let (now, w1) = Date_now en w
           in case md_timestamp cachedMetadata of
                None \<Rightarrow> (None, w1)
              | Some ts \<Rightarrow> if now - ts < 3600000 then (Some cachedMetadata, w1) else (None, w1)))"

definition errorRecord :: "string option \<Rightarrow> string \<Rightarrow> metadata" where
  "errorRecord mintAddress tokenType =
     \<lparr>md_address = mintAddress, md_type = tokenType, md_timestamp = None,
      md_decimals = None, md_supply = None, md_isInitialized = None,
      md_metaplex = None, md_isNFT = None,
      md_error = Some ''Failed to fetch metadata''\<rparr>"

text \<open>\<^verbatim>\<open>getTokenMetadata\<close> (part\_000, lines 66 to 128). The \<^verbatim>\<open>catch\<close> block is the branch of a
  failed \<^verbatim>\<open>getMintInfo\<close>: it returns the error record and does not reach
  \<^verbatim>\<open>metadataCache.set\<close>.\<close>

definition getTokenMetadata ::
  "env \<Rightarrow> string option \<Rightarrow> string \<Rightarrow> world \<Rightarrow> metadata \<times> world" where
  "getTokenMetadata en mintAddress tokenType w =
     (let key = cacheKey mintAddress tokenType
      in case cacheLookup en key w of
           (Some cachedMetadata, w1) \<Rightarrow> (cachedMetadata, w1)
         | (None, w1) \<Rightarrow>
             (let (now, w2) = Date_now en w1;
                  metadata0 = \<lparr>md_address = mintAddress, md_type = tokenType,
                               md_timestamp = Some now, md_decimals = None, md_supply = None,
                               md_isInitialized = None, md_metaplex = None, md_isNFT = None,
                               md_error = None\<rparr>;
                  (found, w3) = getMintInfo en mintAddress w2
              in case found of
                   None \<Rightarrow> (errorRecord mintAddress tokenType, w3)
                 | Some mi \<Rightarrow>
                     (let metadata1 = metadata0\<lparr>md_decimals := mi_decimals mi,
                                                 md_supply := mi_supply mi,
                                                 md_isInitialized := mi_isInitialized mi\<rparr>;
                          (metadata2, w4) =
                            (if tokenType = ''NFT'' \<or> tokenType = ''SPL'' then
                               (let (metaplexData, w') = getMetaplexMetadata en mintAddress w3
                                in (case metaplexData of
                                      None \<Rightarrow> metadata1
                                    | Some d \<Rightarrow> metadata1\<lparr>md_metaplex := Some d\<rparr>, w'))
                             else (metadata1, w3));
                          metadata3 =
                            (if tokenType = ''NFT'' then
                               metadata2\<lparr>md_isNFT :=
                                 Some (mi_decimals mi = Some 0 \<and> mi_supply mi = Some ''1'')\<rparr>
                             else metadata2)
                      in (metadata3,
                          w4\<lparr>metadataCache := (metadataCache w4)(key \<mapsto> metadata3)\<rparr>))))"

definition clearCache :: "world \<Rightarrow> world" where
  "clearCache w = w\<lparr>metadataCache := Map.empty\<rparr>"

section \<open>Transfers\<close>

datatype tokenDesc = TokenMetadata metadata | NativeToken string nat

record TRANSFERS =
  tokenType :: string
  token :: tokenDesc
  t_from :: "string option"
  t_to :: "string option"
  t_value :: "printed option"
  tokenId :: "string option"

definition isTokenTransferType :: "parsed \<Rightarrow> bool" where
  "isTokenTransferType p = (p_type p = Some ''transferChecked'' \<or> p_type p = Some ''transfer'')"

text \<open>\<^verbatim>\<open>tokenMetadata.decimals || 9\<close>: an absent and a zero \<^verbatim>\<open>decimals\<close> both give 9.\<close>

definition decimalsOr9 :: "metadata \<Rightarrow> nat" where
  "decimalsOr9 md = (case md_decimals md of None \<Rightarrow> 9 | Some d \<Rightarrow> if d = 0 then 9 else d)"

text \<open>
  The value of \<^verbatim>\<open>parseTokenTransfer\<close> (part\_001, lines 188 to 193). With a
  \<^verbatim>\<open>tokenAmount\<close> whose \<^verbatim>\<open>uiAmount\<close> is \<^verbatim>\<open>null\<close>, \<^verbatim>\<open>uiAmount.toString()\<close> throws. A raw
  amount 0 leaves or gives \<^verbatim>\<open>'0'\<close>, whether it is the number or the string.
\<close>

definition tokenValue :: "info \<Rightarrow> metadata \<Rightarrow> error + printed" where
  "tokenValue i tokenMetadata =
     (case i_tokenAmount i of
        Some ta \<Rightarrow>
          (case ta_uiAmount ta of
             None \<Rightarrow> Inl TypeError
           | Some u \<Rightarrow> Inr (Text (Number_toString u)))
      | None \<Rightarrow>
          (case i_amount i of
             Some a \<Rightarrow> Inr (quotientText (Some a) (decimalsOr9 tokenMetadata))
           | None \<Rightarrow> Inr (Text ''0'')))"

text \<open>
  An exception leaves the function with \<open>Inl\<close>; the state it leaves behind is not
  kept, since \<^verbatim>\<open>classifyAndExtractInstructions\<close> rejects as a whole.
\<close>

definition parseTokenTransfer ::
  "env \<Rightarrow> parsed \<Rightarrow> world \<Rightarrow> error + (TRANSFERS option \<times> world)" where
  "parseTokenTransfer en p w =
     (if isTokenTransferType p then
        (case p_info p of
           None \<Rightarrow> Inl TypeError
         | Some i \<Rightarrow>
             (let mintAddress = js_or (i_mint i) (i_token i);
                  (tokenMetadata, w') = getTokenMetadata en mintAddress ''SPL'' w
              in case tokenValue i tokenMetadata of
                   Inl e \<Rightarrow> Inl e
                 | Inr v \<Rightarrow>
                     Inr (Some \<lparr>tokenType = ''SPL'', token = TokenMetadata tokenMetadata,
                                t_from = js_or (i_authority i) (i_source i),
                                t_to = i_destination i,
                                t_value = Some v, tokenId = None\<rparr>, w')))
      else Inr (None, w))"

text \<open>\<^verbatim>\<open>parseNFTTransfer\<close> (part\_001, lines 207 to 235; the second copy, lines 466 to 494, is the
  same): \<^verbatim>\<open>tokenAmount?.decimals === 0 && tokenAmount?.uiAmount === 1\<close>.\<close>

definition nftPredicate :: "info \<Rightarrow> bool" where
  "nftPredicate i =
     (case i_tokenAmount i of
        None \<Rightarrow> False
      | Some ta \<Rightarrow>
          ta_decimals ta = Some 0 \<and>
          (case ta_uiAmount ta of None \<Rightarrow> False | Some u \<Rightarrow> is_one u))"

definition parseNFTTransfer ::
  "env \<Rightarrow> parsed \<Rightarrow> world \<Rightarrow> error + (TRANSFERS option \<times> world)" where
  "parseNFTTransfer en p w =
     (if isTokenTransferType p then
        (case p_info p of
           None \<Rightarrow> Inl TypeError
         | Some i \<Rightarrow>
             if nftPredicate i then
               (let (tokenMetadata, w') = getTokenMetadata en (i_mint i) ''NFT'' w
                in Inr (Some \<lparr>tokenType = ''NFT'', token = TokenMetadata tokenMetadata,
                              t_from = js_or (i_authority i) (i_source i),
                              t_to = i_destination i,
                              t_value = None, tokenId = i_mint i\<rparr>, w'))
             else Inr (None, w))
      else Inr (None, w))"

text \<open>\<^verbatim>\<open>parseSystemInstruction\<close> (part\_001, lines 237 to 254; the second copy, lines 496 to 513,
  is the same).\<close>

definition parseSystemInstruction :: "parsed \<Rightarrow> error + TRANSFERS option" where
  "parseSystemInstruction p =
     (if p_type p = Some ''transfer'' \<or> p_type p = Some ''transferWithSeed'' then
        (case p_info p of
           None \<Rightarrow> Inl TypeError
         | Some i \<Rightarrow>
             Inr (Some \<lparr>tokenType = ''Native'', token = NativeToken ''SOL'' 9,
                        t_from = js_or (i_source i) (i_from i),
                        t_to = js_or (i_destination i) (i_to i),
                        t_value = Some (quotientText (i_lamports i) 9),
                        tokenId = None\<rparr>))
      else Inr None)"

section \<open>Instruction details\<close>

datatype params =
    InfoParams info
  | EmptyParams
  | DataParams string "string list"

datatype InstructionDetail =
  InstructionDetail (programName: string) (instructionName: "jsval option")
    (params: params) (innerDetails: "InstructionDetail list")

definition decodeInstructionData :: "env \<Rightarrow> string \<Rightarrow> string" where
  "decodeInstructionData en dat = (case bs58decode en dat of None \<Rightarrow> dat | Some s \<Rightarrow> s)"

text \<open>\<^verbatim>\<open>parseInstructionDetail\<close> (part\_001, lines 292 to 332).\<close>

definition parseInstructionDetail ::
  "env \<Rightarrow> instruction \<Rightarrow> InstructionDetail list \<Rightarrow> InstructionDetail" where
  "parseInstructionDetail en instruction inners =
     (case instruction of
        ParsedInstruction programId prog p \<Rightarrow>
          (let programInfo = getProgramInfo programId;
               name = p_type p;
               ps = (case p_info p of None \<Rightarrow> EmptyParams | Some i \<Rightarrow> InfoParams i)
           in InstructionDetail (prog_name programInfo)
                (js_orv (js_get (prog_instructions programInfo) name) (map_option Str name))
                ps inners)
      | PartiallyDecodedInstruction programId accounts dat \<Rightarrow>
          (let programInfo = getProgramInfo programId;
               decodedData = decodeInstructionData en dat;
               ps = DataParams decodedData (map address_string accounts);
               name = js_orv (js_get (prog_instructions programInfo) (Some ''default''))
                             (Some (Str ''Unknown Instruction''))
           in InstructionDetail (prog_name programInfo)
                (js_orv (js_getv (prog_instructions programInfo) name) name) ps inners))"

section \<open>classifyAndExtractInstructions, with the registry (part\_001, lines 334 to 413)\<close>

record ExtractedData =
  programInteractions :: "string list"
  actions :: "InstructionDetail list"
  otherInstructions :: "InstructionDetail list"
  types :: "jsval option list"
  transfers :: "TRANSFERS list"

definition emptyResult :: ExtractedData where
  "emptyResult = \<lparr>programInteractions = [], actions = [], otherInstructions = [],
                   types = [], transfers = []\<rparr>"

text \<open>The program identifier of lines 354 to 356, and the update of \<^verbatim>\<open>programInteractions\<close> of
  lines 358 to 360.\<close>

fun programIdOf :: "instruction \<Rightarrow> string" where
  "programIdOf (ParsedInstruction (PublicKey b) prog p) = b"
| "programIdOf (ParsedInstruction (Plain s) prog p) = prog"
| "programIdOf (PartiallyDecodedInstruction programId accounts dat) = address_string programId"

definition trackProgram :: "string \<Rightarrow> string list \<Rightarrow> string list" where
  "trackProgram programId seen = (if programId \<in> set seen then seen else seen @ [programId])"

text \<open>The inner instructions of lines 363 to 367: those whose \<^verbatim>\<open>index\<close> is the position of the
  top-level instruction, each parsed with no children of its own.\<close>

definition innerOf :: "env \<Rightarrow> meta option \<Rightarrow> nat \<Rightarrow> InstructionDetail list" where
  "innerOf en m idx =
     (case m of
        None \<Rightarrow> []
      | Some mt \<Rightarrow>
          (case innerInstructions mt of
             None \<Rightarrow> []
           | Some inns \<Rightarrow>
               map (\<lambda>innerIx. parseInstructionDetail en innerIx [])
                 (concat (map inner_instructions
                    (filter (\<lambda>inn. inner_index inn = idx) inns)))))"

definition pushTransfer :: "TRANSFERS option \<Rightarrow> string \<Rightarrow> ExtractedData \<Rightarrow> ExtractedData" where
  "pushTransfer t label r =
     (case t of
        None \<Rightarrow> r
      | Some tr \<Rightarrow> r\<lparr>transfers := transfers r @ [tr], types := types r @ [Some (Str label)]\<rparr>)"

text \<open>The \<^verbatim>\<open>switch (instruction.program)\<close> of lines 377 to 399.\<close>

definition specialCases ::
  "env \<Rightarrow> string \<Rightarrow> parsed \<Rightarrow> ExtractedData \<Rightarrow> world \<Rightarrow> error + (ExtractedData \<times> world)" where
  "specialCases en prog p r w =
     (if prog = ''system'' then
        (case parseSystemInstruction p of
           Inl e \<Rightarrow> Inl e
         | Inr systemTransfer \<Rightarrow> Inr (pushTransfer systemTransfer ''Native Transfer'' r, w))
      else if prog = ''spl-token'' then
        (case parseTokenTransfer en p w of
           Inl e \<Rightarrow> Inl e
         | Inr (tokenTransfer, w1) \<Rightarrow>
             (let r1 = pushTransfer tokenTransfer ''Token Transfer'' r
              in case parseNFTTransfer en p w1 of
                   Inl e \<Rightarrow> Inl e
                 | Inr (nftTransfer, w2) \<Rightarrow>
                     Inr (pushTransfer nftTransfer ''NFT Transfer'' r1, w2)))
      else Inr (r, w))"

text \<open>One turn of the loop of lines 349 to 408.\<close>

definition processInstruction ::
  "env \<Rightarrow> meta option \<Rightarrow> nat \<Rightarrow> instruction \<Rightarrow> ExtractedData \<Rightarrow> world
     \<Rightarrow> error + (ExtractedData \<times> world)" where
  "processInstruction en m idx instruction r w =
     (let programId = programIdOf instruction;
          r1 = r\<lparr>programInteractions := trackProgram programId (programInteractions r)\<rparr>;
          instructionDetail = parseInstructionDetail en instruction (innerOf en m idx)
      in case instruction of
           ParsedInstruction pid prog p \<Rightarrow>
             (case specialCases en prog p r1 w of
                Inl e \<Rightarrow> Inl e
              | Inr (r2, w2) \<Rightarrow>
                  Inr (r2\<lparr>types := types r2 @ [instructionName instructionDetail],
                          actions := actions r2 @ [instructionDetail]\<rparr>, w2))
         | PartiallyDecodedInstruction pid accounts dat \<Rightarrow>
             Inr (r1\<lparr>types := types r1 @ [Some (Str (prog_name (getProgramInfo (Plain programId))))],
                     otherInstructions := otherInstructions r1 @ [instructionDetail]\<rparr>, w))"

fun processAll ::
  "env \<Rightarrow> meta option \<Rightarrow> nat \<Rightarrow> instruction list \<Rightarrow> ExtractedData \<Rightarrow> world
     \<Rightarrow> error + (ExtractedData \<times> world)" where
  "processAll en m idx [] r w = Inr (r, w)"
| "processAll en m idx (instruction # rest) r w =
     (case processInstruction en m idx instruction r w of
        Inl e \<Rightarrow> Inl e
      | Inr (r', w') \<Rightarrow> processAll en m (Suc idx) rest r' w')"

definition classifyAndExtractInstructions ::
  "env \<Rightarrow> tx \<Rightarrow> world \<Rightarrow> error + (ExtractedData \<times> world)" where
  "classifyAndExtractInstructions en t w =
     processAll en (tx_meta t) 0 (tx_instructions t) emptyResult w"

section \<open>classifyAndExtractInstructions, second copy (part\_001, lines 413 to 608)\<close>

record actionB =
  ab_program :: string
  ab_type :: "string option"
  ab_info :: "info option"

record otherB =
  ob_programId :: string
  ob_accounts :: "string list"
  ob_data :: string

record ExtractedDataB =
  programInteractionsB :: "string list"
  actionsB :: "actionB list"
  otherInstructionsB :: "otherB list"
  typesB :: "string list"
  transfersB :: "TRANSFERS list"

definition emptyResultB :: ExtractedDataB where
  "emptyResultB = \<lparr>programInteractionsB = [], actionsB = [], otherInstructionsB = [],
                    typesB = [], transfersB = []\<rparr>"

text \<open>
  \<^verbatim>\<open>(tokenAmount?.uiAmount || amount / Math.pow(10, decimals || 9)).toString()\<close>
  of lines 458 and 459.
\<close>

definition tokenValueB :: "info \<Rightarrow> metadata \<Rightarrow> printed" where
  "tokenValueB i tokenMetadata =
     (let fallback = quotientText (i_amount i) (decimalsOr9 tokenMetadata);
          ui = (case i_tokenAmount i of None \<Rightarrow> None | Some ta \<Rightarrow> ta_uiAmount ta)
      in case ui of
           None \<Rightarrow> fallback
         | Some u \<Rightarrow> if truthy_num u then Text (Number_toString u) else fallback)"

definition parseTokenTransferB ::
  "env \<Rightarrow> parsed \<Rightarrow> world \<Rightarrow> error + (TRANSFERS option \<times> world)" where
  "parseTokenTransferB en p w =
     (if isTokenTransferType p then
        (case p_info p of
           None \<Rightarrow> Inl TypeError
         | Some i \<Rightarrow>
             (let (tokenMetadata, w') = getTokenMetadata en (js_or (i_mint i) (i_token i)) ''SPL'' w
              in Inr (Some \<lparr>tokenType = ''SPL'', token = TokenMetadata tokenMetadata,
                            t_from = js_or (i_authority i) (i_source i),
                            t_to = i_destination i,
                            t_value = Some (tokenValueB i tokenMetadata),
                            tokenId = None\<rparr>, w')))
      else Inr (None, w))"

text \<open>\<^verbatim>\<open>getInstructionType\<close> (lines 515 to 534).\<close>

definition getInstructionType :: "instruction \<Rightarrow> string \<Rightarrow> string" where
  "getInstructionType instruction programId =
     (case instruction of
        ParsedInstruction pid prog p \<Rightarrow> prog @ '':'' @ template (p_type p)
      | PartiallyDecodedInstruction pid accounts dat \<Rightarrow>
          if programId = ''TokenkegQfeZyiNwAJbNbGKPFXCWuBvf9Ss623VQ5DA'' then ''spl-token''
          else if programId = ''ATokenGPvbdGVxr1b2hvZbsiqW5xWH25efTNsLJA8knL'' then ''associated-token''
          else if programId = ''metaqbxxUerdq28cj1RbAWkYQm3ybzjb6a8bt518x1s'' then ''metadata''
          else ''unknown'')"

definition pushTransferB :: "TRANSFERS option \<Rightarrow> string \<Rightarrow> ExtractedDataB \<Rightarrow> ExtractedDataB" where
  "pushTransferB t label r =
     (case t of
        None \<Rightarrow> r
      | Some tr \<Rightarrow> r\<lparr>transfersB := transfersB r @ [tr], typesB := typesB r @ [label]\<rparr>)"

text \<open>One turn of the loop of lines 551 to 604: the \<^verbatim>\<open>system\<close> and \<^verbatim>\<open>spl-token\<close> cases only
  extract transfers, the \<^verbatim>\<open>default\<close> case alone records an action.\<close>

definition processInstructionB ::
  "env \<Rightarrow> instruction \<Rightarrow> ExtractedDataB \<Rightarrow> world \<Rightarrow> error + (ExtractedDataB \<times> world)" where
  "processInstructionB en instruction r w =
     (let programId = address_string (instructionProgramId instruction);
          r1 = r\<lparr>programInteractionsB := trackProgram programId (programInteractionsB r)\<rparr>
      in case instruction of
           ParsedInstruction pid prog p \<Rightarrow>
             (if prog = ''system'' then
                (case parseSystemInstruction p of
                   Inl e \<Rightarrow> Inl e
                 | Inr systemTransfer \<Rightarrow>
                     Inr (pushTransferB systemTransfer ''Native Transfer'' r1, w))
              else if prog = ''spl-token'' then
                (case parseTokenTransferB en p w of
                   Inl e \<Rightarrow> Inl e
                 | Inr (tokenTransfer, w1) \<Rightarrow>
                     (let r2 = pushTransferB tokenTransfer ''Token Transfer'' r1
                      in case parseNFTTransfer en p w1 of
                           Inl e \<Rightarrow> Inl e
                         | Inr (nftTransfer, w2) \<Rightarrow>
                             Inr (pushTransferB nftTransfer ''NFT Transfer'' r2, w2)))
              else
                Inr (r1\<lparr>typesB := typesB r1 @ [getInstructionType instruction programId],
                        actionsB := actionsB r1 @
                          [\<lparr>ab_program = prog, ab_type = p_type p, ab_info = p_info p\<rparr>]\<rparr>, w))
         | PartiallyDecodedInstruction pid accounts dat \<Rightarrow>
             Inr (r1\<lparr>otherInstructionsB := otherInstructionsB r1 @
                       [\<lparr>ob_programId = programId,
                         ob_accounts = map address_string accounts,
                         ob_data = dat\<rparr>]\<rparr>, w))"

fun processAllB ::
  "env \<Rightarrow> instruction list \<Rightarrow> ExtractedDataB \<Rightarrow> world \<Rightarrow> error + (ExtractedDataB \<times> world)" where
  "processAllB en [] r w = Inr (r, w)"
| "processAllB en (instruction # rest) r w =
     (case processInstructionB en instruction r w of
        Inl e \<Rightarrow> Inl e
      | Inr (r', w') \<Rightarrow> processAllB en rest r' w')"

definition classifyAndExtractInstructionsB ::
  "env \<Rightarrow> tx \<Rightarrow> world \<Rightarrow> error + (ExtractedDataB \<times> world)" where
  "classifyAndExtractInstructionsB en t w =
     processAllB en (tx_instructions t) emptyResultB w"

section \<open>Notions used in the statements\<close>

fun isParsed :: "instruction \<Rightarrow> bool" where
  "isParsed (ParsedInstruction programId prog p) = True"
| "isParsed (PartiallyDecodedInstruction programId accounts dat) = False"

text \<open>The parsed instructions that the second copy sends through its two transfer cases.\<close>

fun isTransferCase :: "instruction \<Rightarrow> bool" where
  "isTransferCase (ParsedInstruction programId prog p) = (prog = ''system'' \<or> prog = ''spl-token'')"
| "isTransferCase (PartiallyDecodedInstruction programId accounts dat) = False"

text \<open>
  The instructions on which a transfer parser throws: a recognised transfer tag with no
  \<^verbatim>\<open>info\<close> object, or a token transfer whose \<^verbatim>\<open>tokenAmount.uiAmount\<close> is \<^verbatim>\<open>null\<close>.
\<close>

definition nullUiAmount :: "parsed \<Rightarrow> bool" where
  "nullUiAmount p =
     (case p_info p of
        None \<Rightarrow> False
      | Some i \<Rightarrow> (case i_tokenAmount i of None \<Rightarrow> False | Some ta \<Rightarrow> ta_uiAmount ta = None))"

fun throwing :: "instruction \<Rightarrow> bool" where
  "throwing (ParsedInstruction programId prog p) =
     (if prog = ''system'' then
        (p_type p = Some ''transfer'' \<or> p_type p = Some ''transferWithSeed'') \<and> p_info p = None
      else if prog = ''spl-token'' then
        isTokenTransferType p \<and> (p_info p = None \<or> nullUiAmount p)
      else False)"
| "throwing (PartiallyDecodedInstruction programId accounts dat) = False"

text \<open>
  The program identifiers as \<^verbatim>\<open>ParsedInstruction\<close> and \<^verbatim>\<open>PartiallyDecodedInstruction\<close>
  declare them and as \<^verbatim>\<open>getParsedTransaction\<close> delivers them: \<^verbatim>\<open>PublicKey\<close> objects.
\<close>

fun isPublicKey :: "address \<Rightarrow> bool" where
  "isPublicKey (PublicKey b) = True"
| "isPublicKey (Plain s) = False"


text \<open>A text in exponential notation.\<close>

definition exponential :: "string \<Rightarrow> bool" where
  "exponential s = (CHR ''e'' \<in> set s)"

text \<open>A list without its repetitions, every element at its first occurrence.\<close>

fun firstOccurrences :: "'a list \<Rightarrow> 'a list" where
  "firstOccurrences [] = []"
| "firstOccurrences (x # xs) = x # filter (\<lambda>y. y \<noteq> x) (firstOccurrences xs)"

section \<open>Sample inputs\<close>

definition noInfo :: info where
  "noInfo = \<lparr>i_mint = None, i_token = None, i_tokenAmount = None, i_amount = None,
             i_authority = None, i_source = None, i_destination = None, i_from = None,
             i_to = None, i_lamports = None\<rparr>"

definition coldWorld :: world where
  "coldWorld = \<lparr>metadataCache = Map.empty, clockReads = 0, mintInfoCalls = 0, metaplexCalls = 0\<rparr>"

text \<open>An environment in which every lookup fails, and one with a mint of two decimals.\<close>

definition failingEnv :: env where
  "failingEnv = \<lparr>clock = (\<lambda>n. 1000), mintRpc = (\<lambda>n a. None), metaplexRpc = (\<lambda>n a. None),
                 bs58decode = (\<lambda>s. None)\<rparr>"

definition mintOf :: "nat \<Rightarrow> mintInfo" where
  "mintOf d = \<lparr>mi_decimals = Some d, mi_supply = Some ''1000000'', mi_isInitialized = Some True\<rparr>"

definition envWithDecimals :: "nat \<Rightarrow> env" where
  "envWithDecimals d = \<lparr>clock = (\<lambda>n. 1000 + int n), mintRpc = (\<lambda>n a. Some (mintOf d)),
                        metaplexRpc = (\<lambda>n a. None), bs58decode = (\<lambda>s. None)\<rparr>"

text \<open>An environment whose clock advances by one hour at every reading.\<close>

definition hourlyEnv :: env where
  "hourlyEnv = \<lparr>clock = (\<lambda>n. 3600000 * int n), mintRpc = (\<lambda>n a. Some (mintOf 2)),
                 metaplexRpc = (\<lambda>n a. None), bs58decode = (\<lambda>s. None)\<rparr>"

definition opaque :: "string \<Rightarrow> instruction" where
  "opaque a = PartiallyDecodedInstruction (PublicKey a) [] ''3Bxs''"

definition solTransfer :: "nat \<Rightarrow> instruction" where
  "solTransfer n =
     ParsedInstruction (PublicKey ''11111111111111111111111111111111'') ''system''
       \<lparr>p_type = Some ''transfer'',
        p_info = Some (noInfo\<lparr>i_source := Some ''alice'', i_destination := Some ''bob'',
                              i_lamports := Some n\<rparr>)\<rparr>"

definition rawTransfer :: "nat \<Rightarrow> parsed" where
  "rawTransfer a =
     \<lparr>p_type = Some ''transfer'',
      p_info = Some (noInfo\<lparr>i_mint := Some ''M'', i_amount := Some a,
                            i_source := Some ''alice'', i_destination := Some ''bob''\<rparr>)\<rparr>"

definition checkedTransfer :: "nat \<Rightarrow> number \<Rightarrow> parsed" where
  "checkedTransfer d u =
     \<lparr>p_type = Some ''transferChecked'',
      p_info = Some (noInfo\<lparr>i_mint := Some ''M'',
                            i_tokenAmount := Some \<lparr>ta_decimals = Some d, ta_uiAmount = Some u\<rparr>,
                            i_source := Some ''alice'', i_destination := Some ''bob''\<rparr>)\<rparr>"

definition tokenProgram :: address where
  "tokenProgram = PublicKey ''TokenkegQfeZyiNwAJbNbGKPFXCWuBvf9Ss623VQ5DA''"

definition jupiter :: address where
  "jupiter = PublicKey ''JUP4Fb2cqiRUcaTHdrPC8h2gNsA2ETXiPDD33WcGuJB''"

text \<open>
  A parsed memo instruction (its \<^verbatim>\<open>parsed\<close> is the memo text, with no \<^verbatim>\<open>type\<close> and no
  \<^verbatim>\<open>info\<close>) and a parsed vote instruction, whose program the registry does not hold.
\<close>

definition memoInstruction :: instruction where
  "memoInstruction =
     ParsedInstruction (PublicKey ''MemoSq4gqABAXKb96qnH8TysNcWxMyWCqXgDLGmfcHr'') ''spl-memo''
       \<lparr>p_type = None, p_info = None\<rparr>"

definition voteProgram :: address where
  "voteProgram = PublicKey ''Vote111111111111111111111111111111111111111''"

definition voteInstruction :: instruction where
  "voteInstruction =
     ParsedInstruction voteProgram ''vote'' \<lparr>p_type = Some ''vote'', p_info = Some noInfo\<rparr>"

text \<open>A state whose entry for the SPL metadata of mint \<open>M\<close> is one hour old at time 1000.\<close>

definition staleWorld :: world where
  "staleWorld =
     \<lparr>metadataCache =
        [cacheKey (Some ''M'') ''SPL'' \<mapsto>
           \<lparr>md_address = Some ''M'', md_type = ''SPL'', md_timestamp = Some (- 3599000),
            md_decimals = Some 6, md_supply = Some ''5'', md_isInitialized = Some True,
            md_metaplex = None, md_isNFT = None, md_error = None\<rparr>],
      clockReads = 0, mintInfoCalls = 0, metaplexCalls = 0\<rparr>"

definition txOf :: "instruction list \<Rightarrow> tx" where
  "txOf ixs = \<lparr>tx_instructions = ixs, tx_meta = None\<rparr>"

text \<open>What the caller gets from a run: the exception, or a view of the result.\<close>

definition outcome :: "('a \<Rightarrow> 'b) \<Rightarrow> error + ('a \<times> world) \<Rightarrow> error + 'b" where
  "outcome f x = (case x of Inl e \<Rightarrow> Inl e | Inr (r, w) \<Rightarrow> Inr (f r))"



section \<open>The result lists of the two loops\<close>

lemma pushTransfer_lists [simp]:
  "actions (pushTransfer t l r) = actions r"
  "otherInstructions (pushTransfer t l r) = otherInstructions r"
  "programInteractions (pushTransfer t l r) = programInteractions r"
  by (simp_all add: pushTransfer_def split: option.splits)

lemma specialCases_lists:
  assumes "specialCases en prog p r w = Inr (r', w')"
  shows "actions r' = actions r \<and> otherInstructions r' = otherInstructions r
    \<and> programInteractions r' = programInteractions r"
  using assms
  by (auto simp: specialCases_def Let_def split: if_splits sum.splits prod.splits)

lemma processInstruction_lists:
  assumes "processInstruction en m idx ix r w = Inr (r', w')"
  shows "length (actions r') = length (actions r) + (if isParsed ix then 1 else 0)"
    and "length (otherInstructions r') = length (otherInstructions r) + (if isParsed ix then 0 else 1)"
    and "programInteractions r' = trackProgram (programIdOf ix) (programInteractions r)"
  using assms
  by (auto simp: processInstruction_def Let_def split: instruction.splits sum.splits prod.splits
      dest: specialCases_lists)


lemma pushTransferB_lists [simp]:
  "actionsB (pushTransferB t l r) = actionsB r"
  "otherInstructionsB (pushTransferB t l r) = otherInstructionsB r"
  "programInteractionsB (pushTransferB t l r) = programInteractionsB r"
  by (simp_all add: pushTransferB_def split: option.splits)

lemma processInstructionB_lists:
  assumes "processInstructionB en ix r w = Inr (r', w')"
  shows "length (actionsB r') = length (actionsB r) + (if isParsed ix \<and> \<not> isTransferCase ix then 1 else 0)"
    and "length (otherInstructionsB r') = length (otherInstructionsB r) + (if isParsed ix then 0 else 1)"
    and "programInteractionsB r' = trackProgram (address_string (instructionProgramId ix)) (programInteractionsB r)"
  using assms
  by (auto simp: processInstructionB_def Let_def split: instruction.splits sum.splits prod.splits if_splits)






lemma set_firstOccurrences [simp]: "set (firstOccurrences xs) = set xs"
  by (induction xs) auto

lemma distinct_firstOccurrences [simp]: "distinct (firstOccurrences xs)"
  by (induction xs) auto

lemma remdups_snoc: "remdups (ys @ [x]) = filter (\<lambda>y. y \<noteq> x) (remdups ys) @ [x]"
  by (induction ys) auto

text \<open>The same list in the library's terms: \<open>remdups\<close> keeps the last occurrences.\<close>

lemma firstOccurrences_remdups: "firstOccurrences xs = rev (remdups (rev xs))"
  by (induction xs) (simp_all add: remdups_snoc rev_filter)

lemma trackProgram_firstOccurrences:
  "foldl (\<lambda>seen x. trackProgram x seen) seen xs
     = seen @ filter (\<lambda>y. y \<notin> set seen) (firstOccurrences xs)"
proof (induction xs arbitrary: seen)
  case Nil
  then show ?case by simp
next
  case (Cons x xs)
  show ?case
  proof (cases "x \<in> set seen")
    case True
    then have step: "trackProgram x seen = seen"
      by (simp add: trackProgram_def)
    from True have "filter (\<lambda>y. y \<noteq> x \<and> y \<notin> set seen) (firstOccurrences xs)
        = filter (\<lambda>y. y \<notin> set seen) (firstOccurrences xs)"
      by (intro filter_cong) auto
    with True show ?thesis
      by (simp add: step Cons.IH)
  next
    case False
    then have step: "trackProgram x seen = seen @ [x]"
      by (simp add: trackProgram_def)
    have "filter (\<lambda>y. y \<noteq> x \<and> y \<notin> set seen) (firstOccurrences xs)
        = filter (\<lambda>y. y \<notin> set (seen @ [x])) (firstOccurrences xs)"
      by (intro filter_cong) auto
    with False show ?thesis
      by (simp add: step Cons.IH)
  qed
qed

lemma processAll_programs:
  assumes "processAll en m idx ixs r w = Inr (r', w')"
  shows "programInteractions r'
     = foldl (\<lambda>seen x. trackProgram x seen) (programInteractions r) (map programIdOf ixs)"
  using assms
proof (induction ixs arbitrary: idx r w)
  case Nil
  then show ?case by simp
next
  case (Cons ix ixs)
  from Cons.prems obtain r1 w1 where
    s: "processInstruction en m idx ix r w = Inr (r1, w1)"
    and rest: "processAll en m (Suc idx) ixs r1 w1 = Inr (r', w')"
    by (auto split: sum.splits)
  from Cons.IH [OF rest] processInstruction_lists(3) [OF s]
  show ?case by simp
qed

lemma processAllB_programs:
  assumes "processAllB en ixs r w = Inr (r', w')"
  shows "programInteractionsB r'
     = foldl (\<lambda>seen x. trackProgram x seen) (programInteractionsB r)
         (map (\<lambda>ix. address_string (instructionProgramId ix)) ixs)"
  using assms
proof (induction ixs arbitrary: r w)
  case Nil
  then show ?case by simp
next
  case (Cons ix ixs)
  from Cons.prems obtain r1 w1 where
    s: "processInstructionB en ix r w = Inr (r1, w1)"
    and rest: "processAllB en ixs r1 w1 = Inr (r', w')"
    by (auto split: sum.splits)
  from Cons.IH [OF rest] processInstructionB_lists(3) [OF s]
  show ?case by simp
qed


section \<open>When the loop returns\<close>

lemma parseSystem_returns:
  "(\<exists>t. parseSystemInstruction p = Inr t)
    \<longleftrightarrow> \<not> ((p_type p = Some ''transfer'' \<or> p_type p = Some ''transferWithSeed'') \<and> p_info p = None)"
  by (auto simp: parseSystemInstruction_def split: option.splits)

lemma parseToken_returns:
  "(\<exists>t w'. parseTokenTransfer en p w = Inr (t, w'))
    \<longleftrightarrow> \<not> (isTokenTransferType p \<and> (p_info p = None \<or> nullUiAmount p))"
  by (auto simp: parseTokenTransfer_def tokenValue_def nullUiAmount_def Let_def
      split: option.splits prod.splits sum.splits)

lemma parseNFT_returns:
  "(\<exists>t w'. parseNFTTransfer en p w = Inr (t, w'))
    \<longleftrightarrow> \<not> (isTokenTransferType p \<and> p_info p = None)"
  by (auto simp: parseNFTTransfer_def Let_def split: option.splits prod.splits)

lemma processInstruction_returns:
  "(\<exists>r' w'. processInstruction en m idx ix r w = Inr (r', w')) \<longleftrightarrow> \<not> throwing ix"
proof (cases ix)
  case (ParsedInstruction pid prog p)
  show ?thesis
  proof (cases "prog = ''system''")
    case True
    with ParsedInstruction parseSystem_returns [of p] show ?thesis
      by (auto simp: processInstruction_def specialCases_def Let_def split: sum.splits)
  next
    case ns: False
    show ?thesis
    proof (cases "prog = ''spl-token''")
      case True
      with ParsedInstruction ns parseToken_returns [of en p w] parseNFT_returns [of en p]
      show ?thesis
        by (auto simp: processInstruction_def specialCases_def Let_def split: sum.splits prod.splits)
           (metis Inl_Inr_False)+
    next
      case False
      with ParsedInstruction ns show ?thesis
        by (simp add: processInstruction_def specialCases_def Let_def)
    qed
  qed
next
  case (PartiallyDecodedInstruction pid accs dat)
  then show ?thesis
    by (simp add: processInstruction_def Let_def)
qed

lemma processAll_returns:
  "(\<exists>r' w'. processAll en m idx ixs r w = Inr (r', w')) \<longleftrightarrow> (\<forall>ix \<in> set ixs. \<not> throwing ix)"
proof (induction ixs arbitrary: idx r w)
  case Nil
  then show ?case by simp
next
  case (Cons ix ixs)
  show ?case
  proof (cases "processInstruction en m idx ix r w")
    case (Inl e)
    with processInstruction_returns [of en m idx ix r w] show ?thesis by simp
  next
    case (Inr rw)
    obtain r1 w1 where rw: "rw = (r1, w1)" by (cases rw)
    from Inr rw processInstruction_returns [of en m idx ix r w] have "\<not> throwing ix" by auto
    with Inr rw Cons.IH [of "Suc idx" r1 w1] show ?thesis by simp
  qed
qed

lemma classify_returns:
  "(\<exists>r w'. classifyAndExtractInstructions en t w = Inr (r, w'))
     \<longleftrightarrow> (\<forall>ix \<in> set (tx_instructions t). \<not> throwing ix)"
  unfolding classifyAndExtractInstructions_def by (rule processAll_returns)




lemma programIdOf_publicKey:
  "isPublicKey (instructionProgramId ix) \<Longrightarrow>
     programIdOf ix = address_string (instructionProgramId ix)"
  by (cases ix; cases "instructionProgramId ix") auto

section \<open>Printing numbers\<close>

lemma replicate_numeral: "replicate (numeral k) x = x # replicate (pred_numeral k) x"
  by (simp add: numeral_eq_Suc)

lemmas number_eval =
  Number_toString_def quotientText_def strip_zeros.simps digits.simps digit_char_def
  replicate_numeral is_one_def

lemma digit_char_in: "d < 10 \<Longrightarrow> digit_char d \<in> set ''0123456789''"
  unfolding digit_char_def by (rule nth_mem) simp

lemma digits_chars: "set (digits n) \<subseteq> set ''0123456789''"
proof (induction n rule: digits.induct)
  case (1 n)
  show ?case
  proof (cases "n < 10")
    case True
    with digit_char_in [of n] show ?thesis by (subst digits.simps) simp
  next
    case False
    with "1" digit_char_in [of "n mod 10"] show ?thesis by (subst digits.simps) simp
  qed
qed

lemma digits_no_e: "CHR ''e'' \<notin> set (digits n)"
  using digits_chars [of n] by auto

lemma digits_nonempty: "digits n \<noteq> []"
  by (subst digits.simps) simp

lemma length_digits_le: "0 < k \<Longrightarrow> length (digits n) \<le> k \<longleftrightarrow> n < 10 ^ k"
proof (induction n arbitrary: k rule: digits.induct)
  case (1 n)
  show ?case
  proof (cases "n < 10")
    case True
    then have "length (digits n) = 1" by (subst digits.simps) simp
    moreover from "1.prems" have "(10::nat) ^ 1 \<le> 10 ^ k"
      by (intro power_increasing) simp_all
    ultimately show ?thesis using True "1.prems" by simp
  next
    case False
    then have len: "length (digits n) = Suc (length (digits (n div 10)))"
      by (subst digits.simps) simp
    show ?thesis
    proof (cases k)
      case 0
      with "1.prems" show ?thesis by simp
    next
      case (Suc j)
      show ?thesis
      proof (cases "j = 0")
        case True
        with Suc False len digits_nonempty [of "n div 10"] show ?thesis
          by (cases "digits (n div 10)") simp_all
      next
        case nz: False
        then have "length (digits (n div 10)) \<le> j \<longleftrightarrow> n div 10 < 10 ^ j"
          using "1.IH" [OF False, of j] by simp
        moreover have "n div 10 < 10 ^ j \<longleftrightarrow> n < 10 ^ Suc j"
          by (simp add: div_less_iff_less_mult mult.commute)
        ultimately show ?thesis using Suc len by simp
      qed
    qed
  qed
qed

lemma strip_zeros_length:
  "m \<noteq> 0 \<Longrightarrow> strip_zeros m e = (s, e') \<Longrightarrow>
     s \<noteq> 0 \<and> int (length (digits s)) + e' = int (length (digits m)) + e"
proof (induction m e rule: strip_zeros.induct)
  case (1 m e)
  show ?case
  proof (cases "m mod 10 = 0")
    case True
    with "1.prems" have ge: "\<not> m < 10" and nz: "m div 10 \<noteq> 0" by auto
    from True "1.prems" have rec: "strip_zeros (m div 10) (e + 1) = (s, e')"
      by (subst (asm) strip_zeros.simps) simp
    from "1.IH" [OF "1.prems"(1) True nz rec]
    have "s \<noteq> 0" and "int (length (digits s)) + e' = int (length (digits (m div 10))) + (e + 1)"
      by simp_all
    moreover from ge have "length (digits m) = Suc (length (digits (m div 10)))"
      by (subst digits.simps) simp
    ultimately show ?thesis by simp
  next
    case False
    with "1.prems" show ?thesis by (subst (asm) strip_zeros.simps) simp
  qed
qed

lemma exponential_iff:
  assumes "m \<noteq> 0"
  shows "exponential (Number_toString (Dec m e))
           \<longleftrightarrow> \<not> (- 5 \<le> int (length (digits m)) + e \<and> int (length (digits m)) + e \<le> 21)"
proof -
  obtain s e' where sz: "strip_zeros m e = (s, e')" by (cases "strip_zeros m e")
  from strip_zeros_length [OF assms sz]
  have n: "int (length (digits s)) + e' = int (length (digits m)) + e" by simp
  have noe: "CHR ''e'' \<notin> set (digits s)" by (rule digits_no_e)
  have t: "CHR ''e'' \<notin> set (take j (digits s))" "CHR ''e'' \<notin> set (drop j (digits s))" for j
    using noe in_set_takeD in_set_dropD by fastforce+
  show ?thesis
    using assms sz n noe t
    by (auto simp: Number_toString_def exponential_def Let_def add.commute)
qed

lemma exponential_quotient:
  assumes "0 < a" and "a < 10 ^ 15" and "d \<le> 22"
  shows "quotientText (Some a) d = Text (Number_toString (Dec a (- int d)))"
    and "exponential (Number_toString (Dec a (- int d))) \<longleftrightarrow> a < 10 ^ (d - 6)"
proof -
  from assms show "quotientText (Some a) d = Text (Number_toString (Dec a (- int d)))"
    by (simp add: quotientText_def)
  have l15: "length (digits a) \<le> 15"
    using assms(2) length_digits_le [of 15 a] by simp
  have l1: "1 \<le> length (digits a)"
    using digits_nonempty [of a] by (cases "digits a") simp_all
  have "exponential (Number_toString (Dec a (- int d)))
          \<longleftrightarrow> int (length (digits a)) - int d < - 5"
    using exponential_iff [of a "- int d"] assms(1) l15 by auto
  also have "\<dots> \<longleftrightarrow> a < 10 ^ (d - 6)"
  proof (cases "6 < d")
    case True
    then have "length (digits a) \<le> d - 6 \<longleftrightarrow> a < 10 ^ (d - 6)"
      by (intro length_digits_le) simp
    with True show ?thesis by auto
  next
    case False
    with l1 assms(1) show ?thesis by auto
  qed
  finally show "exponential (Number_toString (Dec a (- int d))) \<longleftrightarrow> a < 10 ^ (d - 6)" .
qed

lemma quotientText_exact:
  "a < 10 ^ 15 \<Longrightarrow> d \<le> 22 \<Longrightarrow> quotientText (Some a) d = Text (Number_toString (Dec a (- int d)))"
  by (simp add: quotientText_def Number_toString_def)

lemma is_one_toString: "is_one u \<Longrightarrow> Number_toString u = ''1''"
proof (cases u)
  case NaN
  moreover assume "is_one u"
  ultimately show ?thesis by (simp add: is_one_def)
next
  case (Dec m e)
  assume "is_one u"
  with Dec have s: "strip_zeros m e = (1, 0)" by (simp add: is_one_def)
  have "m \<noteq> 0"
  proof
    assume "m = 0"
    then have "strip_zeros m e = (0, 0)" by (simp add: strip_zeros.simps)
    with s show False by simp
  qed
  with Dec s show ?thesis
    by (simp add: Number_toString_def digits.simps digit_char_def)
qed

section \<open>Evaluation of the sample inputs\<close>

lemmas sample_defs =
  txOf_def solTransfer_def opaque_def rawTransfer_def checkedTransfer_def noInfo_def
  failingEnv_def envWithDecimals_def hourlyEnv_def mintOf_def memoInstruction_def
  voteProgram_def voteInstruction_def staleWorld_def coldWorld_def tokenProgram_def jupiter_def

lemmas loop_defs =
  classifyAndExtractInstructions_def processInstruction_def specialCases_def
  parseSystemInstruction_def pushTransfer_def emptyResult_def
  classifyAndExtractInstructionsB_def processInstructionB_def pushTransferB_def
  emptyResultB_def trackProgram_def

section \<open>The metadata cache\<close>

lemmas metadata_defs =
  getTokenMetadata_def cacheLookup_def cacheKey_def Date_now_def getMintInfo_def
  getMetaplexMetadata_def errorRecord_def template_def js_or_def

lemma cacheLookup_cache:
  "metadataCache (snd (cacheLookup en key w)) = metadataCache w"
  "mintInfoCalls (snd (cacheLookup en key w)) = mintInfoCalls w"
  "metaplexCalls (snd (cacheLookup en key w)) = metaplexCalls w"
  by (simp_all add: cacheLookup_def Date_now_def Let_def split: option.splits)

lemma cacheLookup_hit:
  "cacheLookup en key w = (Some c, w1) \<Longrightarrow> metadataCache w key = Some c"
  by (auto simp: cacheLookup_def Date_now_def Let_def split: option.splits if_splits)






lemma getTokenMetadata_cold:
  assumes "metadataCache w (cacheKey a t) = None"
    and "getTokenMetadata en a t w = (md, w')"
  shows "mintInfoCalls w' = Suc (mintInfoCalls w)"
    and "clockReads w' = Suc (clockReads w)"
    and "fst (getMintInfo en a w) = None \<Longrightarrow> md = errorRecord a t \<and> metadataCache w' = metadataCache w"
    and "fst (getMintInfo en a w) = Some mi \<Longrightarrow>
           md_timestamp md = Some (clock en (clockReads w)) \<and> metadataCache w' (cacheKey a t) = Some md"
  using assms
  by (auto simp: getTokenMetadata_def cacheLookup_def Date_now_def getMintInfo_def
      getMetaplexMetadata_def Let_def split: option.splits prod.splits if_splits)








lemma sample_zero_decimals:
  "\<exists>md w'. getTokenMetadata (envWithDecimals 0) (Some ''M'') ''SPL'' coldWorld = (md, w')
     \<and> md_decimals md = Some 0 \<and> md_error md = None"
  by (simp add: metadata_defs sample_defs Let_def)

lemma sample_two_decimals:
  "\<exists>md w'. getTokenMetadata (envWithDecimals 2) (Some ''M'') ''SPL'' coldWorld = (md, w')
     \<and> md_decimals md = Some 2 \<and> md_error md = None"
  by (simp add: metadata_defs sample_defs Let_def)

lemma sample_unresolved:
  "\<exists>w'. getTokenMetadata failingEnv (Some ''M'') ''SPL'' coldWorld
           = (errorRecord (Some ''M'') ''SPL'', w')
     \<and> metadataCache w' = Map.empty"
  by (simp add: metadata_defs sample_defs Let_def)

section \<open>The registry tables\<close>













section \<open>The claims\<close>




text \<open>
  C2. Whenever \<^verbatim>\<open>classifyAndExtractInstructions\<close> returns, \<open>programInteractions\<close> has
  no duplicates and lists the identifiers under which the loop tracks the instructions,
  each at its first occurrence; when the program identifiers of the top-level
  instructions are \<^verbatim>\<open>PublicKey\<close> objects, as the instruction types declare, these are
  their base58 texts. The second copy gives the list of the identifiers' texts in every
  case. Programs A, B, A, C give A, B, C, for parsed and for opaque instructions.
\<close>

theorem programInteractions_first_occurrence:
  "(classifyAndExtractInstructions en t w = Inr (r, w') \<longrightarrow>
      distinct (programInteractions r) \<and>
      programInteractions r = firstOccurrences (map programIdOf (tx_instructions t)) \<and>
      ((\<forall>ix \<in> set (tx_instructions t). isPublicKey (instructionProgramId ix)) \<longrightarrow>
         programInteractions r
           = firstOccurrences (map (\<lambda>ix. address_string (instructionProgramId ix))
               (tx_instructions t))))
   \<and> (classifyAndExtractInstructionsB en t w = Inr (rb, wb) \<longrightarrow>
      distinct (programInteractionsB rb) \<and>
      programInteractionsB rb
        = firstOccurrences (map (\<lambda>ix. address_string (instructionProgramId ix)) (tx_instructions t)))"
proof (intro conjI impI)
  assume a: "classifyAndExtractInstructions en t w = Inr (r, w')"
  from processAll_programs [OF a [unfolded classifyAndExtractInstructions_def]]
  show eq: "programInteractions r = firstOccurrences (map programIdOf (tx_instructions t))"
    by (simp add: emptyResult_def trackProgram_firstOccurrences)
  show "distinct (programInteractions r)"
    unfolding eq by (rule distinct_firstOccurrences)
  assume "\<forall>ix \<in> set (tx_instructions t). isPublicKey (instructionProgramId ix)"
  then have "map programIdOf (tx_instructions t)
      = map (\<lambda>ix. address_string (instructionProgramId ix)) (tx_instructions t)"
    by (intro map_cong) (simp_all add: programIdOf_publicKey)
  with eq show "programInteractions r
           = firstOccurrences (map (\<lambda>ix. address_string (instructionProgramId ix))
               (tx_instructions t))"
    by simp
next
  assume b: "classifyAndExtractInstructionsB en t w = Inr (rb, wb)"
  from processAllB_programs [OF b [unfolded classifyAndExtractInstructionsB_def]]
  show eq: "programInteractionsB rb
        = firstOccurrences (map (\<lambda>ix. address_string (instructionProgramId ix)) (tx_instructions t))"
    by (simp add: emptyResultB_def trackProgram_firstOccurrences)
  show "distinct (programInteractionsB rb)"
    unfolding eq by (rule distinct_firstOccurrences)
qed

theorem programInteractions_first_occurrence_witness:
  "isPublicKey (instructionProgramId (solTransfer 5))
   \<and> isPublicKey (instructionProgramId (ParsedInstruction tokenProgram ''spl-token'' (rawTransfer 250)))
   \<and> isPublicKey (instructionProgramId memoInstruction)
   \<and> outcome programInteractions (classifyAndExtractInstructions failingEnv
       (txOf [solTransfer 5, ParsedInstruction tokenProgram ''spl-token'' (rawTransfer 250),
              solTransfer 7, memoInstruction]) coldWorld)
     = Inr [''11111111111111111111111111111111'',
            ''TokenkegQfeZyiNwAJbNbGKPFXCWuBvf9Ss623VQ5DA'',
            ''MemoSq4gqABAXKb96qnH8TysNcWxMyWCqXgDLGmfcHr'']
   \<and> outcome programInteractionsB (classifyAndExtractInstructionsB failingEnv
       (txOf [solTransfer 5, ParsedInstruction tokenProgram ''spl-token'' (rawTransfer 250),
              solTransfer 7, memoInstruction]) coldWorld)
     = Inr [''11111111111111111111111111111111'',
            ''TokenkegQfeZyiNwAJbNbGKPFXCWuBvf9Ss623VQ5DA'',
            ''MemoSq4gqABAXKb96qnH8TysNcWxMyWCqXgDLGmfcHr'']
   \<and> outcome programInteractions (classifyAndExtractInstructions failingEnv
       (txOf [opaque ''A'', opaque ''B'', opaque ''A'', opaque ''C'']) coldWorld)
     = Inr [''A'', ''B'', ''C'']"
proof -
  let ?T = "txOf [solTransfer 5, ParsedInstruction tokenProgram ''spl-token'' (rawTransfer 250),
              solTransfer 7, memoInstruction]"
  let ?U = "txOf [opaque ''A'', opaque ''B'', opaque ''A'', opaque ''C'']"
  have ok: "\<forall>ix \<in> set (tx_instructions ?T). \<not> throwing ix"
    by (simp add: sample_defs isTokenTransferType_def nullUiAmount_def)
  have okU: "\<forall>ix \<in> set (tx_instructions ?U). \<not> throwing ix"
    by (simp add: sample_defs)
  from ok obtain r w' where a: "classifyAndExtractInstructions failingEnv ?T coldWorld = Inr (r, w')"
    using classify_returns [of failingEnv ?T coldWorld] by blast
  from okU obtain ru wu where u: "classifyAndExtractInstructions failingEnv ?U coldWorld = Inr (ru, wu)"
    using classify_returns [of failingEnv ?U coldWorld] by blast
  obtain rb wb where b: "classifyAndExtractInstructionsB failingEnv ?T coldWorld = Inr (rb, wb)"
    by (simp add: classifyAndExtractInstructionsB_def processInstructionB_def
        parseSystemInstruction_def parseTokenTransferB_def parseNFTTransfer_def nftPredicate_def
        isTokenTransferType_def pushTransferB_def emptyResultB_def metadata_defs sample_defs
        Let_def)
  have pk: "\<forall>ix \<in> set (tx_instructions ?T). isPublicKey (instructionProgramId ix)"
    and pkU: "\<forall>ix \<in> set (tx_instructions ?U). isPublicKey (instructionProgramId ix)"
    by (simp_all add: sample_defs)
  note P = programInteractions_first_occurrence [of failingEnv ?T coldWorld r w' rb wb]
  from P a pk have "programInteractions r
      = firstOccurrences (map (\<lambda>ix. address_string (instructionProgramId ix)) (tx_instructions ?T))"
    by blast
  moreover from P b have "programInteractionsB rb
      = firstOccurrences (map (\<lambda>ix. address_string (instructionProgramId ix)) (tx_instructions ?T))"
    by blast
  moreover
  from programInteractions_first_occurrence [of failingEnv ?U coldWorld ru wu rb wb] u pkU
  have "programInteractions ru
      = firstOccurrences (map (\<lambda>ix. address_string (instructionProgramId ix)) (tx_instructions ?U))"
    by blast
  ultimately show ?thesis
    using a b u by (simp add: outcome_def sample_defs)
qed

text \<open>
  C3, as amended. For a parsed token instruction with tag \<^verbatim>\<open>transfer\<close> or
  \<^verbatim>\<open>transferChecked\<close>, the value of the SPL transfer is the printed
  \<^verbatim>\<open>tokenAmount.uiAmount\<close> when the instruction carries a \<^verbatim>\<open>tokenAmount\<close> with a display
  amount; with no \<^verbatim>\<open>tokenAmount\<close> and a raw amount \<open>a\<close>, it is the text of \<open>a / 10^d\<close>
  when the metadata resolved with \<open>d > 0\<close> decimals, and the text of \<open>a / 10^9\<close> when the
  metadata carries no decimals (unresolved). For \<open>a < 10^15\<close> and \<open>d \<le> 22\<close> the digits
  are those of the exact quotient, in exponential notation exactly when the quotient is
  below \<open>10^-6\<close>, that is when \<open>a < 10^(d - 6)\<close>: 250 at two decimals is \<^verbatim>\<open>2.5\<close>, 250 with
  unresolved metadata is \<^verbatim>\<open>2.5e-7\<close>.
\<close>

theorem token_transfer_value:
  assumes "isTokenTransferType p"
    and "p_info p = Some i"
    and "getTokenMetadata en (js_or (i_mint i) (i_token i)) ''SPL'' w = (md, w')"
  shows "(i_tokenAmount i = Some ta \<and> ta_uiAmount ta = Some u \<longrightarrow>
            outcome (map_option t_value) (parseTokenTransfer en p w)
              = Inr (Some (Some (Text (Number_toString u)))))
       \<and> (i_tokenAmount i = None \<and> i_amount i = Some a \<and> md_decimals md = Some d \<and> 0 < d \<longrightarrow>
            outcome (map_option t_value) (parseTokenTransfer en p w)
              = Inr (Some (Some (quotientText (Some a) d))))
       \<and> (i_tokenAmount i = None \<and> i_amount i = Some a \<and> md_decimals md = None \<longrightarrow>
            outcome (map_option t_value) (parseTokenTransfer en p w)
              = Inr (Some (Some (quotientText (Some a) 9))))
       \<and> (a < 10 ^ 15 \<and> d \<le> 22 \<longrightarrow>
            quotientText (Some a) d = Text (Number_toString (Dec a (- int d))))
       \<and> (0 < a \<and> a < 10 ^ 15 \<and> d \<le> 22 \<longrightarrow>
            (exponential (Number_toString (Dec a (- int d))) \<longleftrightarrow> a < 10 ^ (d - 6)))"
proof (intro conjI impI)
  assume "i_tokenAmount i = Some ta \<and> ta_uiAmount ta = Some u"
  with assms show "outcome (map_option t_value) (parseTokenTransfer en p w)
              = Inr (Some (Some (Text (Number_toString u))))"
    by (simp add: parseTokenTransfer_def tokenValue_def outcome_def Let_def)
next
  assume "i_tokenAmount i = None \<and> i_amount i = Some a \<and> md_decimals md = Some d \<and> 0 < d"
  with assms show "outcome (map_option t_value) (parseTokenTransfer en p w)
              = Inr (Some (Some (quotientText (Some a) d)))"
    by (simp add: parseTokenTransfer_def tokenValue_def decimalsOr9_def outcome_def Let_def)
next
  assume "i_tokenAmount i = None \<and> i_amount i = Some a \<and> md_decimals md = None"
  with assms show "outcome (map_option t_value) (parseTokenTransfer en p w)
              = Inr (Some (Some (quotientText (Some a) 9)))"
    by (simp add: parseTokenTransfer_def tokenValue_def decimalsOr9_def outcome_def Let_def)
next
  assume "a < 10 ^ 15 \<and> d \<le> 22"
  then show "quotientText (Some a) d = Text (Number_toString (Dec a (- int d)))"
    by (simp add: quotientText_exact)
next
  assume "0 < a \<and> a < 10 ^ 15 \<and> d \<le> 22"
  then show "exponential (Number_toString (Dec a (- int d))) \<longleftrightarrow> a < 10 ^ (d - 6)"
    by (intro exponential_quotient(2)) simp_all
qed

theorem token_transfer_value_witness:
  "isTokenTransferType (rawTransfer 250) \<and> isTokenTransferType (checkedTransfer 2 (Dec 25 (- 1)))
   \<and> md_decimals (fst (getTokenMetadata (envWithDecimals 2) (Some ''M'') ''SPL'' coldWorld)) = Some 2
   \<and> outcome (map_option t_value)
        (parseTokenTransfer (envWithDecimals 2) (rawTransfer 250) coldWorld)
       = Inr (Some (Some (Text ''2.5'')))
   \<and> md_decimals (fst (getTokenMetadata failingEnv (Some ''M'') ''SPL'' coldWorld)) = None
   \<and> outcome (map_option t_value) (parseTokenTransfer failingEnv (rawTransfer 250) coldWorld)
       = Inr (Some (Some (Text ''2.5e-7'')))
   \<and> outcome (map_option t_value)
        (parseTokenTransfer failingEnv (checkedTransfer 2 (Dec 25 (- 1))) coldWorld)
       = Inr (Some (Some (Text ''2.5'')))
   \<and> exponential ''2.5e-7'' \<and> (250::nat) < 10 ^ (9 - 6)
   \<and> \<not> exponential ''2.5'' \<and> \<not> (250::nat) < 10 ^ (2 - 6)"
proof -
  let ?i = "noInfo\<lparr>i_mint := Some ''M'', i_amount := Some 250,
                     i_source := Some ''alice'', i_destination := Some ''bob''\<rparr>"
  let ?ta = "\<lparr>ta_decimals = Some 2, ta_uiAmount = Some (Dec 25 (- 1))\<rparr>"
  let ?j = "noInfo\<lparr>i_mint := Some ''M'', i_tokenAmount := Some ?ta,
                     i_source := Some ''alice'', i_destination := Some ''bob''\<rparr>"
  have t1: "isTokenTransferType (rawTransfer 250)"
    by (simp add: isTokenTransferType_def rawTransfer_def)
  have t2: "isTokenTransferType (checkedTransfer 2 (Dec 25 (- 1)))"
    by (simp add: isTokenTransferType_def checkedTransfer_def)
  have i1: "p_info (rawTransfer 250) = Some ?i" by (simp add: rawTransfer_def)
  have i2: "p_info (checkedTransfer 2 (Dec 25 (- 1))) = Some ?j" by (simp add: checkedTransfer_def)
  have raw: "i_tokenAmount ?i = None \<and> i_amount ?i = Some 250" by (simp add: noInfo_def)
  obtain md w' where g: "getTokenMetadata (envWithDecimals 2) (Some ''M'') ''SPL'' coldWorld = (md, w')"
    and d: "md_decimals md = Some 2"
    using sample_two_decimals by blast
  obtain w'' where f: "getTokenMetadata failingEnv (Some ''M'') ''SPL'' coldWorld
      = (errorRecord (Some ''M'') ''SPL'', w'')"
    using sample_unresolved by blast
  have g': "getTokenMetadata (envWithDecimals 2) (js_or (i_mint ?i) (i_token ?i)) ''SPL'' coldWorld = (md, w')"
    using g by (simp add: js_or_def)
  have f': "getTokenMetadata failingEnv (js_or (i_mint ?i) (i_token ?i)) ''SPL'' coldWorld
      = (errorRecord (Some ''M'') ''SPL'', w'')"
    using f by (simp add: js_or_def)
  have f'': "getTokenMetadata failingEnv (js_or (i_mint ?j) (i_token ?j)) ''SPL'' coldWorld
      = (errorRecord (Some ''M'') ''SPL'', w'')"
    using f by (simp add: js_or_def)
  note A = token_transfer_value [OF t1 i1 g', where a = 250 and d = 2]
  from A raw d
  have a: "outcome (map_option t_value)
        (parseTokenTransfer (envWithDecimals 2) (rawTransfer 250) coldWorld)
       = Inr (Some (Some (Text (Number_toString (Dec 250 (- 2))))))"
    by auto
  from A have a': "exponential (Number_toString (Dec 250 (- 2))) \<longleftrightarrow> (250::nat) < 10 ^ (2 - 6)"
    by simp
  note B = token_transfer_value [OF t1 i1 f', where a = 250 and d = 9]
  from B raw
  have b: "outcome (map_option t_value) (parseTokenTransfer failingEnv (rawTransfer 250) coldWorld)
       = Inr (Some (Some (Text (Number_toString (Dec 250 (- 9))))))"
    by (auto simp: errorRecord_def)
  from B have b': "exponential (Number_toString (Dec 250 (- 9))) \<longleftrightarrow> (250::nat) < 10 ^ (9 - 6)"
    by simp
  from token_transfer_value [OF t2 i2 f'', where ta = ?ta and u = "Dec 25 (- 1)"]
  have c: "outcome (map_option t_value)
        (parseTokenTransfer failingEnv (checkedTransfer 2 (Dec 25 (- 1))) coldWorld)
       = Inr (Some (Some (Text (Number_toString (Dec 25 (- 1))))))"
    by simp
  have n1: "Number_toString (Dec 250 (- 2)) = ''2.5''"
    and n2: "Number_toString (Dec 250 (- 9)) = ''2.5e-7''"
    and n3: "Number_toString (Dec 25 (- 1)) = ''2.5''"
    by (simp_all add: number_eval)
  show ?thesis
    using t1 t2 a b c a' b' g d f unfolding n1 n2 n3 by (simp add: errorRecord_def)
qed

text \<open>
  The claim as written fails on its second example: below \<open>10^-6\<close> the number is
  printed in exponential notation.
\<close>

theorem token_transfer_value_counterexample:
  "md_error (fst (getTokenMetadata failingEnv (Some ''M'') ''SPL'' coldWorld))
     = Some ''Failed to fetch metadata''
   \<and> outcome (map_option t_value) (parseTokenTransfer failingEnv (rawTransfer 250) coldWorld)
       = Inr (Some (Some (Text ''2.5e-7'')))
   \<and> outcome (map_option t_value) (parseTokenTransfer failingEnv (rawTransfer 250) coldWorld)
       \<noteq> Inr (Some (Some (Text ''0.00000025'')))"
  by (simp add: parseTokenTransfer_def tokenValue_def decimalsOr9_def outcome_def
      isTokenTransferType_def metadata_defs sample_defs number_eval Let_def)

text \<open>
  C4. A parsed \<^verbatim>\<open>spl-token\<close> instruction with tag \<^verbatim>\<open>transfer\<close> or \<^verbatim>\<open>transferChecked\<close>
  whose \<^verbatim>\<open>tokenAmount\<close> has \<^verbatim>\<open>decimals\<close> 0 and \<^verbatim>\<open>uiAmount\<close> 1, with mint \<open>M\<close>, adds two
  transfers, in this order: the SPL transfer of the fungible path (value \<^verbatim>\<open>1\<close>) and an
  NFT transfer with \<open>tokenId = M\<close>; the labels \<^verbatim>\<open>Token Transfer\<close> and \<^verbatim>\<open>NFT Transfer\<close> are
  both recorded.
\<close>

theorem spl_and_nft_from_one_instruction:
  assumes "isTokenTransferType p"
    and "p_info p = Some i"
    and "i_tokenAmount i = Some ta"
    and "ta_decimals ta = Some 0"
    and "ta_uiAmount ta = Some u"
    and "is_one u"
    and "i_mint i = Some M"
  shows "\<exists>spl nft r' w'.
           processInstruction en m idx (ParsedInstruction pid ''spl-token'' p) r w = Inr (r', w')
           \<and> transfers r' = transfers r @ [spl, nft]
           \<and> tokenType spl = ''SPL'' \<and> t_value spl = Some (Text ''1'')
           \<and> tokenType nft = ''NFT'' \<and> tokenId nft = Some M
           \<and> take 2 (drop (length (types r)) (types r'))
               = [Some (Str ''Token Transfer''), Some (Str ''NFT Transfer'')]"
proof -
  obtain md1 w1 where g1: "getTokenMetadata en (js_or (i_mint i) (i_token i)) ''SPL'' w = (md1, w1)"
    by (cases "getTokenMetadata en (js_or (i_mint i) (i_token i)) ''SPL'' w")
  obtain md2 w2 where g2: "getTokenMetadata en (i_mint i) ''NFT'' w1 = (md2, w2)"
    by (cases "getTokenMetadata en (i_mint i) ''NFT'' w1")
  let ?spl = "\<lparr>tokenType = ''SPL'', token = TokenMetadata md1,
                 t_from = js_or (i_authority i) (i_source i), t_to = i_destination i,
                 t_value = Some (Text ''1''), tokenId = None\<rparr>"
  let ?nft = "\<lparr>tokenType = ''NFT'', token = TokenMetadata md2,
                 t_from = js_or (i_authority i) (i_source i), t_to = i_destination i,
                 t_value = None, tokenId = i_mint i\<rparr>"
  from assms g1 have a: "parseTokenTransfer en p w = Inr (Some ?spl, w1)"
    by (simp add: parseTokenTransfer_def tokenValue_def is_one_toString Let_def)
  from assms g2 have b: "parseNFTTransfer en p w1 = Inr (Some ?nft, w2)"
    by (simp add: parseNFTTransfer_def nftPredicate_def Let_def)
  from a b assms(7) show ?thesis
    by (simp add: processInstruction_def specialCases_def pushTransfer_def Let_def)
qed

theorem spl_and_nft_from_one_instruction_witness:
  "isTokenTransferType (checkedTransfer 0 (Dec 1 0)) \<and> is_one (Dec 1 0)
   \<and> outcome (\<lambda>r. map tokenType (transfers r))
       (processInstruction failingEnv None 0
          (ParsedInstruction tokenProgram ''spl-token'' (checkedTransfer 0 (Dec 1 0)))
          emptyResult coldWorld) = Inr [''SPL'', ''NFT'']
   \<and> outcome (\<lambda>r. tokenId (last (transfers r)))
       (processInstruction failingEnv None 0
          (ParsedInstruction tokenProgram ''spl-token'' (checkedTransfer 0 (Dec 1 0)))
          emptyResult coldWorld) = Inr (Some ''M'')"
proof -
  let ?ta = "\<lparr>ta_decimals = Some 0, ta_uiAmount = Some (Dec 1 0)\<rparr>"
  let ?i = "noInfo\<lparr>i_mint := Some ''M'', i_tokenAmount := Some ?ta,
                     i_source := Some ''alice'', i_destination := Some ''bob''\<rparr>"
  have h1: "isTokenTransferType (checkedTransfer 0 (Dec 1 0))"
    by (simp add: isTokenTransferType_def checkedTransfer_def)
  have h2: "p_info (checkedTransfer 0 (Dec 1 0)) = Some ?i" by (simp add: checkedTransfer_def)
  have h3: "i_tokenAmount ?i = Some ?ta" by simp
  have h4: "ta_decimals ?ta = Some 0" by simp
  have h5: "ta_uiAmount ?ta = Some (Dec 1 0)" by simp
  have h6: "is_one (Dec 1 0)" by (simp add: is_one_def strip_zeros.simps)
  have h7: "i_mint ?i = Some ''M''" by simp
  from spl_and_nft_from_one_instruction [OF h1 h2 h3 h4 h5 h6 h7,
         of failingEnv None 0 tokenProgram emptyResult coldWorld]
  obtain spl nft r' w' where
    "processInstruction failingEnv None 0
       (ParsedInstruction tokenProgram ''spl-token'' (checkedTransfer 0 (Dec 1 0)))
       emptyResult coldWorld = Inr (r', w')"
    and "transfers r' = transfers emptyResult @ [spl, nft]"
    and "tokenType spl = ''SPL''" and "tokenType nft = ''NFT''" and "tokenId nft = Some ''M''"
    by blast
  then show ?thesis using h1 h6
    by (simp add: outcome_def emptyResult_def)
qed

text \<open>
  C5, as amended. A result of \<^verbatim>\<open>getTokenMetadata\<close> that comes from the cache or from a
  successful lookup is in the cache under its key when it is returned. A result degraded
  by a failed lookup is the error record, and it is returned without being stored: the
  cache is left as it was.
\<close>

theorem cache_write_through:
  assumes "getTokenMetadata en a t w = (md, w')"
  shows "(fst (cacheLookup en (cacheKey a t) w) = Some c \<longrightarrow>
            md = c \<and> metadataCache w (cacheKey a t) = Some md \<and> metadataCache w' = metadataCache w)
       \<and> (fst (cacheLookup en (cacheKey a t) w) = None \<and> fst (getMintInfo en a w) = Some mi \<longrightarrow>
            md_error md = None \<and> metadataCache w' (cacheKey a t) = Some md)
       \<and> (fst (cacheLookup en (cacheKey a t) w) = None \<and> fst (getMintInfo en a w) = None \<longrightarrow>
            md = errorRecord a t \<and> metadataCache w' = metadataCache w)"
proof (cases "cacheLookup en (cacheKey a t) w")
  case (Pair hit w1)
  have c1: "metadataCache w1 = metadataCache w"
    using cacheLookup_cache(1) [of en "cacheKey a t" w] Pair by simp
  have m1: "mintInfoCalls w1 = mintInfoCalls w"
    using cacheLookup_cache(2) [of en "cacheKey a t" w] Pair by simp
  show ?thesis
  proof (cases hit)
    case (Some c')
    with Pair assms cacheLookup_hit [of en "cacheKey a t" w c' w1] c1 show ?thesis
      by (auto simp: getTokenMetadata_def Let_def)
  next
    case None
    with Pair assms c1 m1 show ?thesis
      by (auto simp: getTokenMetadata_def getMintInfo_def getMetaplexMetadata_def Date_now_def
          Let_def split: option.splits if_splits prod.splits)
  qed
qed

theorem cache_write_through_witness:
  "fst (cacheLookup (envWithDecimals 2) (cacheKey (Some ''M'') ''SPL'') coldWorld) = None
   \<and> fst (getMintInfo (envWithDecimals 2) (Some ''M'') coldWorld) = Some (mintOf 2)
   \<and> metadataCache (snd (getTokenMetadata (envWithDecimals 2) (Some ''M'') ''SPL'' coldWorld))
        (cacheKey (Some ''M'') ''SPL'')
       = Some (fst (getTokenMetadata (envWithDecimals 2) (Some ''M'') ''SPL'' coldWorld))
   \<and> fst (cacheLookup (envWithDecimals 2) (cacheKey (Some ''M'') ''SPL'')
        (snd (getTokenMetadata (envWithDecimals 2) (Some ''M'') ''SPL'' coldWorld)))
       = Some (fst (getTokenMetadata (envWithDecimals 2) (Some ''M'') ''SPL'' coldWorld))
   \<and> fst (getTokenMetadata (envWithDecimals 2) (Some ''M'') ''SPL''
        (snd (getTokenMetadata (envWithDecimals 2) (Some ''M'') ''SPL'' coldWorld)))
       = fst (getTokenMetadata (envWithDecimals 2) (Some ''M'') ''SPL'' coldWorld)
   \<and> fst (cacheLookup failingEnv (cacheKey (Some ''M'') ''SPL'') coldWorld) = None
   \<and> fst (getMintInfo failingEnv (Some ''M'') coldWorld) = None
   \<and> metadataCache (snd (getTokenMetadata failingEnv (Some ''M'') ''SPL'' coldWorld))
       = metadataCache coldWorld"
proof -
  let ?k = "cacheKey (Some ''M'') ''SPL''"
  obtain md w' where g: "getTokenMetadata (envWithDecimals 2) (Some ''M'') ''SPL'' coldWorld = (md, w')"
    by (cases "getTokenMetadata (envWithDecimals 2) (Some ''M'') ''SPL'' coldWorld")
  obtain md2 w2 where g2: "getTokenMetadata (envWithDecimals 2) (Some ''M'') ''SPL'' w' = (md2, w2)"
    by (cases "getTokenMetadata (envWithDecimals 2) (Some ''M'') ''SPL'' w'")
  obtain me w'' where f: "getTokenMetadata failingEnv (Some ''M'') ''SPL'' coldWorld = (me, w'')"
    by (cases "getTokenMetadata failingEnv (Some ''M'') ''SPL'' coldWorld")
  have s1: "fst (cacheLookup (envWithDecimals 2) ?k coldWorld) = None"
    by (simp add: cacheLookup_def coldWorld_def)
  have s2: "fst (getMintInfo (envWithDecimals 2) (Some ''M'') coldWorld) = Some (mintOf 2)"
    by (simp add: getMintInfo_def envWithDecimals_def)
  have s3: "fst (cacheLookup failingEnv ?k coldWorld) = None"
    by (simp add: cacheLookup_def coldWorld_def)
  have s4: "fst (getMintInfo failingEnv (Some ''M'') coldWorld) = None"
    by (simp add: getMintInfo_def failingEnv_def)
  have cold: "metadataCache coldWorld ?k = None" by (simp add: coldWorld_def)
  from getTokenMetadata_cold(4) [OF cold g s2] getTokenMetadata_cold(2) [OF cold g]
  have s5: "fst (cacheLookup (envWithDecimals 2) ?k w') = Some md"
    by (simp add: cacheLookup_def Date_now_def envWithDecimals_def coldWorld_def)
  from cache_write_through [OF g, where mi = "mintOf 2"] s1 s2
  have a: "metadataCache w' ?k = Some md" by simp
  from cache_write_through [OF g2, where c = md] s5
  have h: "md2 = md" by simp
  from cache_write_through [OF f] s3 s4
  have b: "metadataCache w'' = metadataCache coldWorld" by simp
  show ?thesis using s1 s2 s3 s4 s5 a b h g g2 f by simp
qed

text \<open>
  The claim as written fails on a failed lookup: the error record is returned and the
  cache has no entry for the key.
\<close>

theorem cache_write_through_counterexample:
  "fst (getTokenMetadata failingEnv (Some ''M'') ''SPL'' coldWorld) = errorRecord (Some ''M'') ''SPL''
   \<and> md_error (errorRecord (Some ''M'') ''SPL'') = Some ''Failed to fetch metadata''
   \<and> metadataCache (snd (getTokenMetadata failingEnv (Some ''M'') ''SPL'' coldWorld))
        (cacheKey (Some ''M'') ''SPL'') = None"
  by (simp add: metadata_defs sample_defs Let_def)







text \<open>
  C8, as amended. A parsed \<^verbatim>\<open>system\<close> instruction with tag \<^verbatim>\<open>transfer\<close> or
  \<^verbatim>\<open>transferWithSeed\<close> and \<open>n\<close> lamports adds one Native transfer, on the fixed 9-decimal
  SOL descriptor, whose value is the text of \<open>n / 10^9\<close>; for \<open>n < 10^15\<close> its digits are
  those of the exact quotient, in positional notation from 1000 lamports on and in
  exponential notation below. 1500000000 lamports give \<^verbatim>\<open>1.5\<close>, 999 give \<^verbatim>\<open>9.99e-7\<close>.
\<close>

theorem native_transfer_value:
  assumes "p_type p = Some ''transfer'' \<or> p_type p = Some ''transferWithSeed''"
    and "p_info p = Some i"
    and "i_lamports i = Some n"
  shows "\<exists>tr r'. parseSystemInstruction p = Inr (Some tr)
           \<and> tokenType tr = ''Native'' \<and> token tr = NativeToken ''SOL'' 9
           \<and> t_value tr = Some (quotientText (Some n) 9)
           \<and> processInstruction en m idx (ParsedInstruction pid ''system'' p) r w = Inr (r', w)
           \<and> transfers r' = transfers r @ [tr]
           \<and> (n < 10 ^ 15 \<longrightarrow> t_value tr = Some (Text (Number_toString (Dec n (- 9)))))
           \<and> (0 < n \<and> n < 10 ^ 15 \<longrightarrow>
                (exponential (Number_toString (Dec n (- 9))) \<longleftrightarrow> n < 1000))"
proof -
  have q: "quotientText (Some n) 9 = Text (Number_toString (Dec n (- 9)))" if "n < 10 ^ 15"
    using quotientText_exact [OF that, of 9] by simp
  have e: "exponential (Number_toString (Dec n (- 9))) \<longleftrightarrow> n < 1000" if "0 < n \<and> n < 10 ^ 15"
    using exponential_quotient(2) [of n 9] that by simp
  from assms q e show ?thesis
    by (auto simp: parseSystemInstruction_def processInstruction_def specialCases_def
        pushTransfer_def Let_def)
qed

theorem native_transfer_value_witness:
  "outcome (\<lambda>r. map t_value (transfers r))
      (processInstruction failingEnv None 0 (solTransfer 1500000000) emptyResult coldWorld)
     = Inr [Some (Text ''1.5'')]
   \<and> \<not> exponential ''1.5''
   \<and> outcome (\<lambda>r. map t_value (transfers r))
      (processInstruction failingEnv None 0 (solTransfer 1000) emptyResult coldWorld)
     = Inr [Some (Text ''0.000001'')]
   \<and> \<not> exponential ''0.000001''
   \<and> outcome (\<lambda>r. map t_value (transfers r))
      (processInstruction failingEnv None 0 (solTransfer 999) emptyResult coldWorld)
     = Inr [Some (Text ''9.99e-7'')]
   \<and> exponential ''9.99e-7''"
proof -
  have W: "outcome (\<lambda>r. map t_value (transfers r))
        (processInstruction failingEnv None 0 (solTransfer n) emptyResult coldWorld)
       = Inr [Some (Text (Number_toString (Dec n (- 9))))]
     \<and> (exponential (Number_toString (Dec n (- 9))) \<longleftrightarrow> n < 1000)"
    if "0 < n \<and> n < 10 ^ 15" for n
  proof -
    let ?i = "noInfo\<lparr>i_source := Some ''alice'', i_destination := Some ''bob'',
                       i_lamports := Some n\<rparr>"
    let ?p = "\<lparr>p_type = Some ''transfer'', p_info = Some ?i\<rparr>"
    have h1: "p_type ?p = Some ''transfer'' \<or> p_type ?p = Some ''transferWithSeed''" by simp
    have h2: "p_info ?p = Some ?i" by simp
    have h3: "i_lamports ?i = Some n" by simp
    from native_transfer_value [OF h1 h2 h3, of failingEnv None 0
           "PublicKey ''11111111111111111111111111111111''" emptyResult coldWorld] that
    show ?thesis
      by (auto simp: outcome_def solTransfer_def emptyResult_def)
  qed
  have n1: "Number_toString (Dec 1500000000 (- 9)) = ''1.5''"
    and n2: "Number_toString (Dec 1000 (- 9)) = ''0.000001''"
    and n3: "Number_toString (Dec 999 (- 9)) = ''9.99e-7''"
    by (simp_all add: number_eval)
  from W [of 1500000000] W [of 1000] W [of 999] show ?thesis
    unfolding n1 n2 n3 by simp
qed

text \<open>
  The claim as written fails below 1000 lamports: one lamport is printed as \<^verbatim>\<open>1e-9\<close>,
  not as a decimal string.
\<close>

theorem native_transfer_value_counterexample:
  "outcome (\<lambda>r. map t_value (transfers r))
      (processInstruction failingEnv None 0 (solTransfer 1) emptyResult coldWorld)
     = Inr [Some (Text ''1e-9'')]
   \<and> exponential ''1e-9''"
  by (simp add: outcome_def loop_defs sample_defs number_eval exponential_def Let_def)

text \<open>
  C9. In \<^verbatim>\<open>parseTokenTransfer\<close>, for a transfer with a raw amount \<open>a\<close> and no
  \<^verbatim>\<open>tokenAmount\<close> whose metadata resolved with \<^verbatim>\<open>decimals\<close> 0, the value is the text of
  \<open>a / 10^9\<close>, not of \<open>a\<close>; for \<open>a < 10^15\<close> its digits are those of the exact quotient:
  raw amount 5 gives \<^verbatim>\<open>5e-9\<close>, where 5 itself prints as \<^verbatim>\<open>5\<close>.
\<close>

theorem zero_decimals_fall_back_to_nine:
  assumes "isTokenTransferType p"
    and "p_info p = Some i"
    and "i_tokenAmount i = None"
    and "i_amount i = Some a"
    and "getTokenMetadata en (js_or (i_mint i) (i_token i)) ''SPL'' w = (md, w')"
    and "md_decimals md = Some 0"
  shows "\<exists>tr. parseTokenTransfer en p w = Inr (Some tr, w')
           \<and> token tr = TokenMetadata md
           \<and> t_value tr = Some (quotientText (Some a) 9)
           \<and> (a < 10 ^ 15 \<longrightarrow> t_value tr = Some (Text (Number_toString (Dec a (- 9)))))"
proof -
  have "quotientText (Some a) 9 = Text (Number_toString (Dec a (- 9)))" if "a < 10 ^ 15"
    using quotientText_exact [OF that, of 9] by simp
  with assms show ?thesis
    by (simp add: parseTokenTransfer_def tokenValue_def decimalsOr9_def Let_def)
qed

theorem zero_decimals_fall_back_to_nine_witness:
  "isTokenTransferType (rawTransfer 5)
   \<and> md_decimals (fst (getTokenMetadata (envWithDecimals 0) (Some ''M'') ''SPL'' coldWorld)) = Some 0
   \<and> md_error (fst (getTokenMetadata (envWithDecimals 0) (Some ''M'') ''SPL'' coldWorld)) = None
   \<and> outcome (map_option t_value) (parseTokenTransfer (envWithDecimals 0) (rawTransfer 5) coldWorld)
       = Inr (Some (Some (Text ''5e-9'')))
   \<and> Number_toString (Dec 5 0) = ''5''"
proof -
  let ?i = "noInfo\<lparr>i_mint := Some ''M'', i_amount := Some 5,
                     i_source := Some ''alice'', i_destination := Some ''bob''\<rparr>"
  obtain md w' where g: "getTokenMetadata (envWithDecimals 0) (Some ''M'') ''SPL'' coldWorld = (md, w')"
    and d: "md_decimals md = Some 0" and e: "md_error md = None"
    using sample_zero_decimals by blast
  have h1: "isTokenTransferType (rawTransfer 5)"
    by (simp add: isTokenTransferType_def rawTransfer_def)
  have h2: "p_info (rawTransfer 5) = Some ?i" by (simp add: rawTransfer_def)
  have h3: "i_tokenAmount ?i = None" by (simp add: noInfo_def)
  have h4: "i_amount ?i = Some 5" by simp
  have h5: "getTokenMetadata (envWithDecimals 0) (js_or (i_mint ?i) (i_token ?i)) ''SPL'' coldWorld = (md, w')"
    using g by (simp add: js_or_def)
  from zero_decimals_fall_back_to_nine [OF h1 h2 h3 h4 h5 d]
  obtain tr where "parseTokenTransfer (envWithDecimals 0) (rawTransfer 5) coldWorld = Inr (Some tr, w')"
    and "t_value tr = Some (Text (Number_toString (Dec 5 (- 9))))"
    by auto
  then show ?thesis using h1 g d e
    by (simp add: outcome_def number_eval)
qed

text \<open>
  C10. \<^verbatim>\<open>parseNFTTransfer\<close> yields an NFT transfer only for a transfer tag whose
  instruction carries a \<^verbatim>\<open>tokenAmount\<close> with \<^verbatim>\<open>decimals\<close> 0 and \<^verbatim>\<open>uiAmount\<close> 1; with no
  \<^verbatim>\<open>tokenAmount\<close> it yields none and leaves the state untouched, whatever the
  environment says about the mint.
\<close>

theorem nft_transfer_needs_tokenAmount:
  "(parseNFTTransfer en p w = Inr (Some tr, w') \<longrightarrow>
      isTokenTransferType p \<and>
      (\<exists>i ta u. p_info p = Some i \<and> i_tokenAmount i = Some ta \<and> ta_decimals ta = Some 0
         \<and> ta_uiAmount ta = Some u \<and> is_one u))
   \<and> (p_info p = Some i \<and> i_tokenAmount i = None \<longrightarrow> parseNFTTransfer en p w = Inr (None, w))"
  by (auto simp: parseNFTTransfer_def nftPredicate_def Let_def
      split: if_splits option.splits prod.splits)

theorem nft_transfer_needs_tokenAmount_witness:
  "outcome (map_option tokenId)
      (parseNFTTransfer (envWithDecimals 0) (checkedTransfer 0 (Dec 1 0)) coldWorld)
     = Inr (Some (Some ''M''))
   \<and> is_one (Dec 1 0)
   \<and> i_tokenAmount (noInfo\<lparr>i_mint := Some ''M'', i_amount := Some 1,
                            i_source := Some ''alice'', i_destination := Some ''bob''\<rparr>) = None
   \<and> parseNFTTransfer (envWithDecimals 0) (rawTransfer 1) coldWorld = Inr (None, coldWorld)"
proof -
  let ?i = "noInfo\<lparr>i_mint := Some ''M'', i_amount := Some 1,
                     i_source := Some ''alice'', i_destination := Some ''bob''\<rparr>"
  obtain tr w' where
    a: "parseNFTTransfer (envWithDecimals 0) (checkedTransfer 0 (Dec 1 0)) coldWorld = Inr (Some tr, w')"
    and t: "tokenId tr = Some ''M''"
    by (simp add: parseNFTTransfer_def nftPredicate_def isTokenTransferType_def metadata_defs
        sample_defs is_one_def strip_zeros.simps Let_def)
  have h: "p_info (rawTransfer 1) = Some ?i \<and> i_tokenAmount ?i = None"
    by (simp add: rawTransfer_def noInfo_def)
  from nft_transfer_needs_tokenAmount
         [of "envWithDecimals 0" "checkedTransfer 0 (Dec 1 0)" coldWorld tr w' ?i] a
  have one: "\<exists>i ta u. p_info (checkedTransfer 0 (Dec 1 0)) = Some i \<and> i_tokenAmount i = Some ta
      \<and> ta_decimals ta = Some 0 \<and> ta_uiAmount ta = Some u \<and> is_one u"
    by simp
  then have "is_one (Dec 1 0)" by (auto simp: checkedTransfer_def)
  moreover from nft_transfer_needs_tokenAmount
         [of "envWithDecimals 0" "rawTransfer 1" coldWorld tr w' ?i] h
  have "parseNFTTransfer (envWithDecimals 0) (rawTransfer 1) coldWorld = Inr (None, coldWorld)"
    by simp
  ultimately show ?thesis using a t h by (simp add: outcome_def)
qed

end
